theory Spec2Isabelle
  imports Complex_Main "HOL-Library.Sublist"
begin

section \<open>Text: characters, lowercasing, whitespace\<close>

text \<open>
  A Python \<open>str\<close> is modelled as a \<open>string\<close> holding one \<open>char\<close> per code point; the
  model covers the code points below U+0100. On these, \<open>is_space\<close> is what \<open>\s\<close> and
  \<open>str.strip()\<close> treat as whitespace, \<open>is_digit\<close> is what \<open>\d\<close> accepts, and
  \<open>lower_char\<close> is \<open>str.lower()\<close> on one character.
\<close>

definition is_space :: "char \<Rightarrow> bool" where
  "is_space c =
     (let n = (of_char c :: nat)
      in (9 \<le> n \<and> n \<le> 13) \<or> (28 \<le> n \<and> n \<le> 32) \<or> n = 133 \<or> n = 160)"

definition is_digit :: "char \<Rightarrow> bool" where
  "is_digit c = (c \<in> set ''0123456789'')"

definition lower_char :: "char \<Rightarrow> char" where
  "lower_char c =
     (let n = (of_char c :: nat)
      in if (65 \<le> n \<and> n \<le> 90) \<or> (192 \<le> n \<and> n \<le> 222 \<and> n \<noteq> 215)
         then char_of (n + 32) else c)"

definition lower :: "string \<Rightarrow> string" where
  "lower s = map lower_char s"

definition strip :: "string \<Rightarrow> string" where
  "strip s = rev (dropWhile is_space (rev (dropWhile is_space s)))"

text \<open>Python's \<open>needle in haystack\<close> on strings.\<close>

fun contains :: "string \<Rightarrow> string \<Rightarrow> bool" where
  "contains [] needle = (needle = [])"
| "contains (x # xs) needle = (prefix needle (x # xs) \<or> contains xs needle)"

section \<open>Regular expressions as \<open>re\<close> runs them\<close>

text \<open>
  The patterns of the pipeline use literals, the classes \<open>\s\<close> and \<open>\d\<close>, the greedy
  quantifiers \<open>*\<close> and \<open>+\<close> on a single character or class, \<open>?\<close>, concatenation and
  numbered capture groups. \<open>run\<close> is the backtracking matcher: it works through a stack
  of pending pieces, prefers the longer repetition and the present option, and gives the
  first way to match in that order. A position counts the characters consumed so far;
  a group is recorded as the span it covered.
\<close>

datatype cset = Lit char | Space | Digit

fun accepts :: "cset \<Rightarrow> char \<Rightarrow> bool" where
  "accepts (Lit a) c = (c = a)"
| "accepts Space c = is_space c"
| "accepts Digit c = is_digit c"

datatype regex =
    Eps
  | Sym cset
  | Star cset
  | Plus cset
  | Opt regex
  | Seq regex regex
  | Group nat regex

fun lit :: "string \<Rightarrow> regex" where
  "lit [] = Eps"
| "lit (c # cs) = Seq (Sym (Lit c)) (lit cs)"

fun seq :: "regex list \<Rightarrow> regex" where
  "seq [] = Eps"
| "seq (r # rs) = Seq r (seq rs)"

text \<open>\<open>len(match.groups())\<close>: the number of groups of the pattern.\<close>

fun ngroups :: "regex \<Rightarrow> nat" where
  "ngroups (Opt r) = ngroups r"
| "ngroups (Seq a b) = ngroups a + ngroups b"
| "ngroups (Group g r) = Suc (ngroups r)"
| "ngroups r = 0"

datatype frame = Rx regex | Close nat nat

type_synonym spans = "nat \<rightharpoonup> nat \<times> nat"

fun weight :: "regex \<Rightarrow> nat" where
  "weight Eps = 1"
| "weight (Sym c) = 1"
| "weight (Star c) = 1"
| "weight (Plus c) = 3"
| "weight (Opt r) = Suc (weight r)"
| "weight (Seq a b) = Suc (weight a + weight b)"
| "weight (Group g r) = Suc (Suc (weight r))"

fun fweight :: "frame \<Rightarrow> nat" where
  "fweight (Rx r) = weight r"
| "fweight (Close g b) = 1"

function run :: "frame list \<Rightarrow> nat \<Rightarrow> string \<Rightarrow> spans \<Rightarrow> (nat \<times> string \<times> spans) option" where
  "run [] pos s caps = Some (pos, s, caps)"
| "run (Close g b # k) pos s caps = run k pos s (caps(g \<mapsto> (b, pos)))"
| "run (Rx Eps # k) pos s caps = run k pos s caps"
| "run (Rx (Sym c) # k) pos [] caps = None"
| "run (Rx (Sym c) # k) pos (x # xs) caps =
     (if accepts c x then run k (Suc pos) xs caps else None)"
| "run (Rx (Star c) # k) pos [] caps = run k pos [] caps"
| "run (Rx (Star c) # k) pos (x # xs) caps =
     (if accepts c x
      then (case run (Rx (Star c) # k) (Suc pos) xs caps of
              Some r \<Rightarrow> Some r
            | None \<Rightarrow> run k pos (x # xs) caps)
      else run k pos (x # xs) caps)"
| "run (Rx (Plus c) # k) pos s caps = run (Rx (Sym c) # Rx (Star c) # k) pos s caps"
| "run (Rx (Opt r) # k) pos s caps =
     (case run (Rx r # k) pos s caps of
        Some res \<Rightarrow> Some res
      | None \<Rightarrow> run k pos s caps)"
| "run (Rx (Seq a b) # k) pos s caps = run (Rx a # Rx b # k) pos s caps"
| "run (Rx (Group g r) # k) pos s caps = run (Rx r # Close g pos # k) pos s caps"
  by pat_completeness auto
termination
  by (relation "measures [\<lambda>(k, pos, s, caps). length s,
                           \<lambda>(k, pos, s, caps). sum_list (map fweight k)]") auto

text \<open>
  A match object: the subject string, the span of the whole match and the spans of the
  groups that took part. \<open>whole m\<close> is \<open>match.group(0)\<close> and \<open>m_group m g\<close> is
  \<open>match.group(g)\<close>; a group that did not take part gives \<open>None\<close>, as in Python.
\<close>

record match =
  m_re :: regex
  m_string :: string
  m_start :: nat
  m_end :: nat
  m_spans :: spans

definition slice :: "string \<Rightarrow> nat \<Rightarrow> nat \<Rightarrow> string" where
  "slice s b e = take (e - b) (drop b s)"

definition whole :: "match \<Rightarrow> string" where
  "whole m = slice (m_string m) (m_start m) (m_end m)"

definition m_group :: "match \<Rightarrow> nat \<Rightarrow> string option" where
  "m_group m g =
     (if g = 0 then Some (whole m)
      else map_option (\<lambda>(b, e). slice (m_string m) b e) (m_spans m g))"

text \<open>
  \<open>search_from p subj pos rest\<close> is \<open>re.search\<close> from position \<open>pos\<close>, where \<open>rest\<close> is the
  subject from \<open>pos\<close> on: the match at the leftmost start that has one. It gives the match
  and the text left after it.
\<close>

fun search_from :: "regex \<Rightarrow> string \<Rightarrow> nat \<Rightarrow> string \<Rightarrow> (match \<times> string) option" where
  "search_from p subj pos [] =
     (case run [Rx p] pos [] Map.empty of
        Some (e, rest', caps) \<Rightarrow>
          Some (\<lparr>m_re = p, m_string = subj, m_start = pos, m_end = e, m_spans = caps\<rparr>, rest')
      | None \<Rightarrow> None)"
| "search_from p subj pos (x # xs) =
     (case run [Rx p] pos (x # xs) Map.empty of
        Some (e, rest', caps) \<Rightarrow>
          Some (\<lparr>m_re = p, m_string = subj, m_start = pos, m_end = e, m_spans = caps\<rparr>, rest')
      | None \<Rightarrow> search_from p subj (Suc pos) xs)"

definition search :: "regex \<Rightarrow> string \<Rightarrow> match option" where
  "search p s = map_option fst (search_from p s 0 s)"

text \<open>
  \<open>re.finditer\<close>: the matches from left to right, each search starting where the last
  match ended; after an empty match the scan moves on by one character, and stops at
  the end of the text. None of the patterns below matches the empty string. A match
  never leaves more text than it was given, so the two length tests always hold; they
  are what makes the recursion well-founded.
\<close>

function finditer_from :: "regex \<Rightarrow> string \<Rightarrow> nat \<Rightarrow> string \<Rightarrow> match list" where
  "finditer_from p subj pos rest =
     (case search_from p subj pos rest of
        None \<Rightarrow> []
      | Some (m, rest') \<Rightarrow>
          m # (if m_start m < m_end m
               then (if length rest' < length rest
                     then finditer_from p subj (m_end m) rest' else [])
               else (case rest' of
                       [] \<Rightarrow> []
                     | x # xs \<Rightarrow>
                         if length xs < length rest
                         then finditer_from p subj (Suc (m_end m)) xs else [])))"
  by pat_completeness auto
termination
  by (relation "measure (\<lambda>(p, subj, pos, rest). length rest)") auto

declare finditer_from.simps [simp del]

definition finditer :: "regex \<Rightarrow> string \<Rightarrow> match list" where
  "finditer p s = finditer_from p s 0 s"

text \<open>
  The number of occurrences of a pattern in a text: the positions, from \<open>pos\<close> on, at
  which the pattern matches.
\<close>

fun count_occurrences :: "regex \<Rightarrow> nat \<Rightarrow> string \<Rightarrow> nat" where
  "count_occurrences p pos [] = (if run [Rx p] pos [] Map.empty = None then 0 else 1)"
| "count_occurrences p pos (x # xs) =
     (if run [Rx p] pos (x # xs) Map.empty = None then 0 else 1)
     + count_occurrences p (Suc pos) xs"

text \<open>\<open>sets_group g r\<close>: every match of \<open>r\<close> goes through group \<open>g\<close>.\<close>

fun sets_group :: "nat \<Rightarrow> regex \<Rightarrow> bool" where
  "sets_group g (Group h r) = (g = h \<or> sets_group g r)"
| "sets_group g (Seq a b) = (sets_group g a \<or> sets_group g b)"
| "sets_group g r = False"

fun frame_sets :: "nat \<Rightarrow> frame \<Rightarrow> bool" where
  "frame_sets g (Rx r) = sets_group g r"
| "frame_sets g (Close h b) = (g = h)"

section \<open>Numbers\<close>

text \<open>
  Scores are Python floats; the model computes with exact rationals. \<open>py_float\<close> is
  \<open>float()\<close> on the only strings the pipeline gives it, the text of a group matched by
  \<open>\d+\.?\d*\<close> or \<open>\d+\<close>: digits, then optionally a dot and more digits. On any other
  string the model answers \<open>None\<close> for the \<open>ValueError\<close>. A float is the nearest double
  of the decimal, so a comparison with a threshold can differ from the exact one only
  for a decimal within rounding distance of the threshold.
\<close>

definition digit_val :: "char \<Rightarrow> nat" where
  "digit_val c = of_char c - 48"

definition nat_of_digits :: "string \<Rightarrow> nat" where
  "nat_of_digits ds = foldl (\<lambda>a d. 10 * a + digit_val d) 0 ds"

definition py_float :: "string \<Rightarrow> rat option" where
  "py_float t =
     (let ip = takeWhile is_digit t; r = dropWhile is_digit t
      in if ip = [] then None
         else (case r of
                 [] \<Rightarrow> Some (of_nat (nat_of_digits ip))
               | c # fp \<Rightarrow>
                   if c = CHR ''.'' \<and> list_all is_digit fp
                   then Some (of_nat (nat_of_digits ip) + of_nat (nat_of_digits fp) / 10 ^ length fp)
                   else None))"

text \<open>Python's truth value of an \<open>Optional[str]\<close>: \<open>None\<close> and the empty string are false.\<close>

definition truthy :: "string option \<Rightarrow> bool" where
  "truthy x = (case x of None \<Rightarrow> False | Some v \<Rightarrow> v \<noteq> [])"

section \<open>The layer decorators\<close>

text \<open>
  \<open>silver_layer\<close> and \<open>gold_layer\<close> wrap a dataclass: a call of the wrapped class builds
  the instance, then attaches the layer name, the clock reading \<open>datetime.now().isoformat()\<close>
  and the score the instance's own scoring method computes. The clock reading is an
  input of the model (\<open>now\<close>); the scoring method is the parameter \<open>calc\<close>.
\<close>

record 'a silver =
  s_inst :: 'a
  s_layer :: string
  processed_at :: string
  quality_score :: rat

record 'a gold =
  g_inst :: 'a
  g_layer :: string
  enriched_at :: string
  business_value :: rat

definition silver_layer :: "('a \<Rightarrow> rat) \<Rightarrow> string \<Rightarrow> 'a \<Rightarrow> 'a silver" where
  "silver_layer calc now x =
     \<lparr>s_inst = x, s_layer = ''silver'', processed_at = now, quality_score = calc x\<rparr>"

definition gold_layer :: "('a \<Rightarrow> rat) \<Rightarrow> string \<Rightarrow> 'a \<Rightarrow> 'a gold" where
  "gold_layer calc now x =
     \<lparr>g_inst = x, g_layer = ''gold'', enriched_at = now, business_value = calc x\<rparr>"

section \<open>Silver layer: entities and their quality scores\<close>

text \<open>
  The dataclasses, field by field. Three fields are renamed where the name is taken:
  \<open>value\<close> of \<open>SilverLabResult\<close> is \<open>lab_value\<close>, \<open>confidence_score\<close> of
  \<open>SilverDiagnosis\<close> is \<open>dx_confidence_score\<close>, and \<open>patient_id\<close> of
  \<open>GoldPatientProfile\<close> is \<open>gp_patient_id\<close>. The attributes a decorator attaches
  (\<open>_layer\<close>, \<open>_processed_at\<close>, \<open>_quality_score\<close>, \<open>_enriched_at\<close>,
  \<open>_business_value\<close>) are the fields of the wrappers above, without the underscore.
\<close>

record BronzeDocument =
  document_id :: string
  patient_id :: string
  source_system :: string
  document_type :: string
  raw_content :: string
  ingestion_timestamp :: string

record SilverClinicalEntity =
  entity_type :: string
  entity_value :: string
  confidence_score :: rat
  extracted_from :: string
  normalized_code :: "string option"
  temporal_info :: "(string \<times> string) list option"

definition SilverClinicalEntity_calculate_quality_score :: "SilverClinicalEntity \<Rightarrow> rat" where
  "SilverClinicalEntity_calculate_quality_score e =
     (let base_score = confidence_score e;
          base_score = (if truthy (normalized_code e) then base_score + 2 / 10 else base_score);
          base_score = (if temporal_info e \<noteq> None \<and> temporal_info e \<noteq> Some []
                        then base_score + 1 / 10 else base_score)
      in min base_score 1)"

record SilverLabResult =
  test_name :: string
  lab_value :: "rat + string"
  unit :: "string option"
  reference_range :: "string option"
  test_date :: string
  abnormal_flag :: "string option"
  loinc_code :: "string option"

definition SilverLabResult_calculate_quality_score :: "SilverLabResult \<Rightarrow> rat" where
  "SilverLabResult_calculate_quality_score r =
     (let score = 6 / 10;
          score = (if truthy (unit r) then score + 1 / 10 else score);
          score = (if truthy (reference_range r) then score + 1 / 10 else score);
          score = (if truthy (abnormal_flag r) then score + 1 / 10 else score);
          score = (if truthy (loinc_code r) then score + 2 / 10 else score)
      in score)"

record SilverMedication =
  medication_name :: string
  dosage :: "string option"
  frequency :: "string option"
  route :: "string option"
  start_date :: "string option"
  end_date :: "string option"
  rxnorm_code :: "string option"

definition SilverMedication_calculate_quality_score :: "SilverMedication \<Rightarrow> rat" where
  "SilverMedication_calculate_quality_score m =
     (let required_fields = [Some (medication_name m), dosage m, frequency m];
          present_required = length (filter truthy required_fields);
          optional_score = (\<Sum>f \<leftarrow> filter truthy [route m, start_date m, rxnorm_code m]. 1 / 10)
      in (of_nat present_required / of_nat (length required_fields)) * (7 / 10) + optional_score)"

record SilverDiagnosis =
  diagnosis_text :: string
  icd10_code :: "string option"
  diagnosis_date :: "string option"
  diagnosis_type :: string
  dx_confidence_score :: rat

definition SilverDiagnosis_calculate_quality_score :: "SilverDiagnosis \<Rightarrow> rat" where
  "SilverDiagnosis_calculate_quality_score d =
     (let score = dx_confidence_score d * (6 / 10);
          score = (if truthy (icd10_code d) then score + 3 / 10 else score);
          score = (if truthy (diagnosis_date d) then score + 1 / 10 else score)
      in score)"

text \<open>What a call \<open>SilverClinicalEntity(...)\<close> of the decorated class returns.\<close>

type_synonym entity = "SilverClinicalEntity silver"

definition new_entity :: "string \<Rightarrow> SilverClinicalEntity \<Rightarrow> entity" where
  "new_entity now e = silver_layer SilverClinicalEntity_calculate_quality_score now e"

section \<open>Gold layer: the patient profile\<close>

record GoldPatientProfile =
  gp_patient_id :: string
  age_years :: int
  sex :: string
  primary_conditions :: "string list"
  comorbidities :: "string list"
  current_medications :: "string list"
  contraindications :: "string list"
  geographic_location :: string
  trial_eligibility_factors :: "(string \<times> string) list"

text \<open>
  The two terms of \<open>_calculate_business_value\<close>. \<open>bool(x)\<close> of a list or a string is
  "not empty", of an integer "not zero"; \<open>sum\<close> counts the true ones.
\<close>

definition completeness :: "GoldPatientProfile \<Rightarrow> rat" where
  "completeness p =
     of_nat (length (filter id
       [primary_conditions p \<noteq> [],
        current_medications p \<noteq> [],
        geographic_location p \<noteq> [],
        age_years p \<noteq> 0,
        sex p \<noteq> []])) / 5"

definition richness :: "GoldPatientProfile \<Rightarrow> rat" where
  "richness p =
     min (of_nat (length (primary_conditions p)) * (2 / 10)
          + of_nat (length (comorbidities p)) * (1 / 10)
          + of_nat (length (current_medications p)) * (1 / 10)) 1"

definition calculate_business_value :: "GoldPatientProfile \<Rightarrow> rat" where
  "calculate_business_value p = completeness p * (7 / 10) + richness p * (3 / 10)"

type_synonym profile = "GoldPatientProfile gold"

definition new_profile :: "string \<Rightarrow> GoldPatientProfile \<Rightarrow> profile" where
  "new_profile now p = gold_layer calculate_business_value now p"

section \<open>The transformer and its log\<close>

datatype metric = Count nat | Score rat

record log_entry =
  timestamp :: string
  stage :: string
  entity_id :: string
  metric :: metric

record MedallionTransformer =
  transformation_log :: "log_entry list"

definition log_transformation ::
  "MedallionTransformer \<Rightarrow> string \<Rightarrow> string \<Rightarrow> string \<Rightarrow> metric \<Rightarrow> MedallionTransformer" where
  "log_transformation tr now stg eid m =
     tr\<lparr>transformation_log := transformation_log tr
          @ [\<lparr>timestamp = now, stage = stg, entity_id = eid, metric = m\<rparr>]\<rparr>"

section \<open>Extraction\<close>

datatype py_error = AttributeError

definition get_rxnorm_code :: "string \<Rightarrow> string option" where
  "get_rxnorm_code medication =
     map_of [(''metformin'', ''6809''), (''lisinopril'', ''29046''),
             (''atorvastatin'', ''83367''), (''amlodipine'', ''17767'')] (lower medication)"

definition get_loinc_code :: "string \<Rightarrow> string option" where
  "get_loinc_code lab_name =
     map_of [(''hemoglobin_a1c'', ''4548-4''), (''glucose'', ''2345-7''),
             (''creatinine'', ''2160-0''), (''egfr'', ''33914-3'')] lab_name"

text \<open>
  The seven medication patterns differ in the name only:
  \<open>(name)\s+(\d+\s*mg)?\<close>.
\<close>

definition med_pattern :: "string \<Rightarrow> regex" where
  "med_pattern name =
     seq [Group 1 (lit name), Plus Space,
          Opt (Group 2 (seq [Plus Digit, Star Space, lit ''mg'']))]"

definition med_names :: "string list" where
  "med_names = [''metformin'', ''lisinopril'', ''atorvastatin'', ''amlodipine'',
                ''glipizide'', ''losartan'', ''semaglutide'']"

definition med_patterns :: "regex list" where
  "med_patterns = map med_pattern med_names"

definition diagnosis_patterns :: "(regex \<times> string \<times> string) list" where
  "diagnosis_patterns =
     [(seq [lit ''type'', Plus Space, lit ''2'', Plus Space, lit ''diabetes''],
         ''E11.9'', ''Type 2 Diabetes''),
      (lit ''hypertension'', ''I10'', ''Essential Hypertension''),
      (lit ''hyperlipidemia'', ''E78.5'', ''Hyperlipidemia''),
      (seq [lit ''chronic'', Plus Space, lit ''kidney'', Plus Space, lit ''disease''],
         ''N18.3'', ''Chronic kidney disease''),
      (lit ''obesity'', ''E66.9'', ''Obesity'')]"

definition lab_patterns :: "(regex \<times> string) list" where
  "lab_patterns =
     [(seq [lit ''a1c'', Opt (lit '':''), Star Space,
            Group 1 (seq [Plus Digit, Opt (lit ''.''), Star Digit]), Star Space, lit ''%''],
         ''hemoglobin_a1c''),
      (seq [lit ''glucose'', Opt (lit '':''), Star Space,
            Group 1 (Plus Digit), Star Space, lit ''mg/dl''],
         ''glucose''),
      (seq [lit ''creatinine'', Opt (lit '':''), Star Space,
            Group 1 (seq [Plus Digit, Opt (lit ''.''), Star Digit]), Star Space, lit ''mg/dl''],
         ''creatinine''),
      (seq [lit ''egfr'', Opt (lit '':''), Star Space, Group 1 (Plus Digit)], ''egfr''),
      (seq [lit ''ldl'', Opt (lit '':''), Star Space, Group 1 (Plus Digit)], ''ldl_cholesterol''),
      (seq [lit ''hdl'', Opt (lit '':''), Star Space, Group 1 (Plus Digit)], ''hdl_cholesterol'')]"

text \<open>
  The arguments of each \<open>SilverClinicalEntity(...)\<close> call, from one match. A group that
  did not take part is \<open>None\<close>: formatted into an f-string it reads \<open>None\<close>, and
  \<open>_get_rxnorm_code(None)\<close> raises \<open>AttributeError\<close> on \<open>None.lower()\<close>.
\<close>

definition medication_args :: "match \<Rightarrow> py_error + SilverClinicalEntity" where
  "medication_args m =
     (let med_name = m_group m 1;
          dosage = (if ngroups (m_re m) > 1 then m_group m 2 else None)
      in case med_name of
           None \<Rightarrow> Inl AttributeError
         | Some name \<Rightarrow>
             Inr \<lparr>entity_type = ''medication'',
                  entity_value = (if truthy dosage
                                  then strip (name @ '' '' @ (case dosage of Some d \<Rightarrow> d | None \<Rightarrow> ''None''))
                                  else name),
                  confidence_score = 9 / 10,
                  extracted_from = whole m,
                  normalized_code = get_rxnorm_code name,
                  temporal_info = None\<rparr>)"

definition diagnosis_args :: "string \<Rightarrow> string \<Rightarrow> match \<Rightarrow> SilverClinicalEntity" where
  "diagnosis_args icd_code standard_name m =
     \<lparr>entity_type = ''diagnosis'',
      entity_value = standard_name,
      confidence_score = 95 / 100,
      extracted_from = whole m,
      normalized_code = Some icd_code,
      temporal_info = None\<rparr>"

definition lab_args :: "string \<Rightarrow> match \<Rightarrow> SilverClinicalEntity" where
  "lab_args lab_name m =
     \<lparr>entity_type = ''lab_value'',
      entity_value = lab_name @ '': '' @ (case m_group m 1 of Some v \<Rightarrow> v | None \<Rightarrow> ''None''),
      confidence_score = 85 / 100,
      extracted_from = whole m,
      normalized_code = get_loinc_code lab_name,
      temporal_info = None\<rparr>"

text \<open>
  The loops \<open>for pattern in ...: for match in re.finditer(pattern, text.lower())\<close> visit
  the matches pattern by pattern, each pattern's matches from left to right.
\<close>

definition medication_matches :: "string \<Rightarrow> match list" where
  "medication_matches text = concat (map (\<lambda>p. finditer p (lower text)) med_patterns)"

definition diagnosis_matches :: "string \<Rightarrow> (string \<times> string \<times> match) list" where
  "diagnosis_matches text =
     concat (map (\<lambda>(p, icd_code, standard_name).
                    map (\<lambda>m. (icd_code, standard_name, m)) (finditer p (lower text)))
                 diagnosis_patterns)"

definition lab_matches :: "string \<Rightarrow> (string \<times> match) list" where
  "lab_matches text =
     concat (map (\<lambda>(p, lab_name). map (\<lambda>m. (lab_name, m)) (finditer p (lower text)))
                 lab_patterns)"

text \<open>
  Every entity of a call is built in turn and stamped with the clock reading of its
  construction: \<open>clk i\<close> is what the \<open>i\<close>-th \<open>datetime.now()\<close> of the call returns.
  An exception while building one ends the call.
\<close>

fun collect :: "(py_error + 'a) list \<Rightarrow> py_error + 'a list" where
  "collect [] = Inr []"
| "collect (Inl e # rs) = Inl e"
| "collect (Inr x # rs) = (case collect rs of Inl e \<Rightarrow> Inl e | Inr xs \<Rightarrow> Inr (x # xs))"

definition stamp :: "(nat \<Rightarrow> string) \<Rightarrow> SilverClinicalEntity list \<Rightarrow> entity list" where
  "stamp clk es = map (\<lambda>(i, e). new_entity (clk i) e) (enumerate 0 es)"

definition extract_medications :: "(nat \<Rightarrow> string) \<Rightarrow> string \<Rightarrow> py_error + entity list" where
  "extract_medications clk text =
     (case collect (map medication_args (medication_matches text)) of
        Inl e \<Rightarrow> Inl e
      | Inr es \<Rightarrow> Inr (stamp clk es))"

definition extract_diagnoses :: "(nat \<Rightarrow> string) \<Rightarrow> string \<Rightarrow> entity list" where
  "extract_diagnoses clk text =
     stamp clk (map (\<lambda>(icd_code, standard_name, m). diagnosis_args icd_code standard_name m)
                    (diagnosis_matches text))"

definition extract_lab_values :: "(nat \<Rightarrow> string) \<Rightarrow> string \<Rightarrow> entity list" where
  "extract_lab_values clk text =
     stamp clk (map (\<lambda>(lab_name, m). lab_args lab_name m) (lab_matches text))"

definition bronze_to_silver_document ::
  "MedallionTransformer \<Rightarrow> (nat \<Rightarrow> string) \<Rightarrow> BronzeDocument
     \<Rightarrow> py_error + (entity list \<times> MedallionTransformer)" where
  "bronze_to_silver_document tr clk bronze_doc =
     (case extract_medications clk (raw_content bronze_doc) of
        Inl e \<Rightarrow> Inl e
      | Inr meds \<Rightarrow>
          (let diags = extract_diagnoses (\<lambda>i. clk (length meds + i)) (raw_content bronze_doc);
               labs = extract_lab_values (\<lambda>i. clk (length meds + length diags + i))
                        (raw_content bronze_doc);
               entities = meds @ diags @ labs
           in Inr (entities,
                   log_transformation tr (clk (length entities)) ''bronze_to_silver''
                     (document_id bronze_doc) (Count (length entities)))))"

section \<open>Clinical assessments\<close>

definition first_number :: regex where
  "first_number = Group 1 (seq [Plus Digit, Opt (lit ''.''), Star Digit])"

definition first_integer :: regex where
  "first_integer = Group 1 (Plus Digit)"

text \<open>
  \<open>float(re.search(pattern, text).group(1))\<close> inside \<open>try\<close>: \<open>None\<close> stands for any of the
  exceptions the bare \<open>except\<close> catches (no match, a group that is \<open>None\<close>, a string that
  \<open>float\<close> rejects).
\<close>

definition search_float :: "regex \<Rightarrow> string \<Rightarrow> rat option" where
  "search_float p text =
     (case search p text of
        None \<Rightarrow> None
      | Some m \<Rightarrow> (case m_group m 1 of None \<Rightarrow> None | Some t \<Rightarrow> py_float t))"

definition assess_diabetes_control :: "entity list \<Rightarrow> string" where
  "assess_diabetes_control entities =
     (case filter (\<lambda>e. contains (entity_value (s_inst e)) ''hemoglobin_a1c'') entities of
        [] \<Rightarrow> ''unknown''
      | e # _ \<Rightarrow>
          (case search_float first_number (entity_value (s_inst e)) of
             None \<Rightarrow> ''unknown''
           | Some a1c_value \<Rightarrow>
               if a1c_value < 7 then ''well_controlled''
               else if a1c_value < 8 then ''moderately_controlled''
               else ''poorly_controlled''))"

definition assess_renal_function :: "entity list \<Rightarrow> string" where
  "assess_renal_function entities =
     (case filter (\<lambda>e. contains (entity_value (s_inst e)) ''egfr'') entities of
        [] \<Rightarrow> ''unknown''
      | e # _ \<Rightarrow>
          (case search_float first_integer (entity_value (s_inst e)) of
             None \<Rightarrow> ''unknown''
           | Some egfr_value \<Rightarrow>
               if egfr_value \<ge> 90 then ''normal''
               else if egfr_value \<ge> 60 then ''mild_impairment''
               else if egfr_value \<ge> 30 then ''moderate_impairment''
               else ''severe_impairment''))"

definition has_diagnosis :: "string \<Rightarrow> entity list \<Rightarrow> bool" where
  "has_diagnosis word entities =
     list_ex (\<lambda>e. contains (lower (entity_value (s_inst e))) word)
       (filter (\<lambda>e. entity_type (s_inst e) = ''diagnosis'') entities)"

definition assess_cardiac_risk :: "entity list \<Rightarrow> string" where
  "assess_cardiac_risk entities =
     (let risk_factors =
            (if has_diagnosis ''hypertension'' entities then [''hypertension''] else [])
          @ (if has_diagnosis ''hyperlipidemia'' entities then [''hyperlipidemia''] else [])
          @ (if has_diagnosis ''diabetes'' entities then [''diabetes''] else [])
      in if length risk_factors \<ge> 3 then ''high''
         else if length risk_factors \<ge> 2 then ''moderate''
         else if length risk_factors \<ge> 1 then ''low''
         else ''minimal'')"

section \<open>Aggregation\<close>

text \<open>
  The demographics dictionary: \<open>None\<close> is a missing key, for which \<open>dict.get\<close> gives the
  default.
\<close>

record demographics =
  d_age :: "int option"
  d_sex :: "string option"
  d_location :: "string option"

definition get_or :: "'a option \<Rightarrow> 'a \<Rightarrow> 'a" where
  "get_or v dflt = (case v of None \<Rightarrow> dflt | Some x \<Rightarrow> x)"

definition values_of_type :: "string \<Rightarrow> entity list \<Rightarrow> string list" where
  "values_of_type ty entities =
     map (\<lambda>e. entity_value (s_inst e)) (filter (\<lambda>e. entity_type (s_inst e) = ty) entities)"

definition silver_to_gold_patient ::
  "MedallionTransformer \<Rightarrow> (nat \<Rightarrow> string) \<Rightarrow> string \<Rightarrow> entity list \<Rightarrow> demographics
     \<Rightarrow> profile \<times> MedallionTransformer" where
  "silver_to_gold_patient tr clk pid entities demo =
     (let medications = values_of_type ''medication'' entities;
          diagnoses = values_of_type ''diagnosis'' entities;
          primary = take 3 diagnoses;
          comorbid = drop 3 diagnoses;
          contra = values_of_type ''contraindication'' entities;
          eligibility_factors =
            [(''diabetes_controlled'', assess_diabetes_control entities),
             (''renal_function'', assess_renal_function entities),
             (''cardiac_risk'', assess_cardiac_risk entities)];
          gold_profile = new_profile (clk 0)
            \<lparr>gp_patient_id = pid,
             age_years = get_or (d_age demo) 0,
             sex = get_or (d_sex demo) ''unknown'',
             primary_conditions = primary,
             comorbidities = comorbid,
             current_medications = medications,
             contraindications = contra,
             geographic_location = get_or (d_location demo) ''unknown'',
             trial_eligibility_factors = eligibility_factors\<rparr>
      in (gold_profile,
          log_transformation tr (clk 1) ''silver_to_gold'' pid
            (Score (business_value gold_profile))))"

section \<open>Concrete inputs\<close>

text \<open>A clock that reads the same at every call, and a diagnosis entity as extraction builds it.\<close>

definition const_clock :: "string \<Rightarrow> nat \<Rightarrow> string" where
  "const_clock t i = t"

definition diagnosis_entity :: "string \<Rightarrow> string \<Rightarrow> string \<Rightarrow> string \<Rightarrow> entity" where
  "diagnosis_entity now icd_code standard_name matched =
     new_entity now
       \<lparr>entity_type = ''diagnosis'', entity_value = standard_name, confidence_score = 95 / 100,
        extracted_from = matched, normalized_code = Some icd_code, temporal_info = None\<rparr>"

definition four_diagnoses :: "entity list" where
  "four_diagnoses =
     [diagnosis_entity ''t0'' ''E11.9'' ''Type 2 Diabetes'' ''type 2 diabetes'',
      diagnosis_entity ''t1'' ''I10'' ''Essential Hypertension'' ''hypertension'',
      diagnosis_entity ''t2'' ''E78.5'' ''Hyperlipidemia'' ''hyperlipidemia'',
      diagnosis_entity ''t3'' ''E66.9'' ''Obesity'' ''obesity'']"

definition demo_52 :: demographics where
  "demo_52 = \<lparr>d_age = Some 52, d_sex = Some ''female'', d_location = Some ''California''\<rparr>"

definition demo_unknown :: demographics where
  "demo_unknown = \<lparr>d_age = Some 0, d_sex = Some ''unknown'', d_location = Some ''unknown''\<rparr>"

definition empty_transformer :: MedallionTransformer where
  "empty_transformer = \<lparr>transformation_log = []\<rparr>"

definition full_lab_result :: SilverLabResult where
  "full_lab_result =
     \<lparr>test_name = ''Hemoglobin A1C'', lab_value = Inl (82 / 10), unit = Some ''%'',
      reference_range = Some ''4.0-5.6'', test_date = ''2024-01-15'',
      abnormal_flag = Some ''H'', loinc_code = Some ''4548-4''\<rparr>"

text \<open>The lab entity that extraction builds for a match of the A1C pattern with value \<open>v\<close>.\<close>

definition a1c_entity :: "string \<Rightarrow> string \<Rightarrow> entity" where
  "a1c_entity now v =
     new_entity now
       \<lparr>entity_type = ''lab_value'', entity_value = ''hemoglobin_a1c: '' @ v,
        confidence_score = 85 / 100, extracted_from = ''a1c: '' @ v @ ''%'',
        normalized_code = Some ''4548-4'', temporal_info = None\<rparr>"

section \<open>Occurrences of the known terms\<close>

definition all_patterns :: "regex list" where
  "all_patterns = med_patterns @ map fst diagnosis_patterns @ map fst lab_patterns"

text \<open>
  The number of occurrences of known terms in a text: for each pattern of the three
  tables, the positions of the lowercased text at which it matches.
\<close>

definition occurrences :: "string \<Rightarrow> nat" where
  "occurrences text = (\<Sum>p\<leftarrow>all_patterns. count_occurrences p 0 (lower text))"

definition doc_of :: "string \<Rightarrow> BronzeDocument" where
  "doc_of text =
     \<lparr>document_id = ''doc_001'', patient_id = ''P001'', source_system = ''Epic_EHR'',
      document_type = ''clinical_note'', raw_content = text,
      ingestion_timestamp = ''2024-01-15T09:59:00''\<rparr>"

definition plain_text :: string where
  "plain_text = ''Patient feels fine today.''"

definition mixed_text :: string where
  "mixed_text = ''METFORMIN 500 MG for Hypertension, A1C: 7.5%''"

definition mixed_entities :: "entity list" where
  "mixed_entities =
     [new_entity ''t''
        \<lparr>entity_type = ''medication'', entity_value = ''metformin 500 mg'',
         confidence_score = 9 / 10, extracted_from = ''metformin 500 mg'',
         normalized_code = Some ''6809'', temporal_info = None\<rparr>,
      new_entity ''t''
        \<lparr>entity_type = ''diagnosis'', entity_value = ''Essential Hypertension'',
         confidence_score = 95 / 100, extracted_from = ''hypertension'',
         normalized_code = Some ''I10'', temporal_info = None\<rparr>,
      new_entity ''t''
        \<lparr>entity_type = ''lab_value'', entity_value = ''hemoglobin_a1c: 7.5'',
         confidence_score = 85 / 100, extracted_from = ''a1c: 7.5%'',
         normalized_code = Some ''4548-4'', temporal_info = None\<rparr>]"

definition mixed_text_alt :: string where
  "mixed_text_alt = ''Metformin 500 mg FOR hypertension, a1c: 7.5%''"

text \<open>
  \<open>name_then_space name s\<close>: somewhere in \<open>s\<close> the name occurs with a whitespace character
  right after it.
\<close>

fun name_then_space :: "string \<Rightarrow> string \<Rightarrow> bool" where
  "name_then_space name [] = False"
| "name_then_space name (x # xs) =
     ((prefix name (x # xs)
        \<and> (case drop (length name) (x # xs) of [] \<Rightarrow> False | c # _ \<Rightarrow> is_space c))
      \<or> name_then_space name xs)"

text \<open>Scenario A of the specification, and the six entities extraction finds in it.\<close>

definition scenario_a :: string where
  "scenario_a = ''Metformin 1000 mg BID, Lisinopril 10 mg daily. A1C: 8.2%, eGFR: 86, hypertension, type 2 diabetes.''"

definition scenario_a_fields :: "SilverClinicalEntity list" where
  "scenario_a_fields =
     [\<lparr>entity_type = ''medication'', entity_value = ''metformin 1000 mg'',
       confidence_score = 9 / 10, extracted_from = ''metformin 1000 mg'',
       normalized_code = Some ''6809'', temporal_info = None\<rparr>,
      \<lparr>entity_type = ''medication'', entity_value = ''lisinopril 10 mg'',
       confidence_score = 9 / 10, extracted_from = ''lisinopril 10 mg'',
       normalized_code = Some ''29046'', temporal_info = None\<rparr>,
      \<lparr>entity_type = ''diagnosis'', entity_value = ''Type 2 Diabetes'',
       confidence_score = 95 / 100, extracted_from = ''type 2 diabetes'',
       normalized_code = Some ''E11.9'', temporal_info = None\<rparr>,
      \<lparr>entity_type = ''diagnosis'', entity_value = ''Essential Hypertension'',
       confidence_score = 95 / 100, extracted_from = ''hypertension'',
       normalized_code = Some ''I10'', temporal_info = None\<rparr>,
      \<lparr>entity_type = ''lab_value'', entity_value = ''hemoglobin_a1c: 8.2'',
       confidence_score = 85 / 100, extracted_from = ''a1c: 8.2%'',
       normalized_code = Some ''4548-4'', temporal_info = None\<rparr>,
      \<lparr>entity_type = ''lab_value'', entity_value = ''egfr: 86'',
       confidence_score = 85 / 100, extracted_from = ''egfr: 86'',
       normalized_code = Some ''33914-3'', temporal_info = None\<rparr>]"

definition scenario_a_log :: MedallionTransformer where
  "scenario_a_log =
     \<lparr>transformation_log =
        [\<lparr>timestamp = ''t'', stage = ''bronze_to_silver'', entity_id = ''doc_001'',
          metric = Count 6\<rparr>]\<rparr>"

section \<open>Facts about the matcher\<close>

lemma lower_char_idem: "lower_char (lower_char c) = lower_char c"
  by (simp add: lower_char_def Let_def)

lemma lower_idem: "lower (lower s) = lower s"
  by (simp add: lower_def lower_char_idem)

lemma run_end:
  "run k pos s caps = Some (e, rest, caps') \<Longrightarrow>
     length rest \<le> length s \<and> rest = drop (length s - length rest) s
     \<and> e = pos + (length s - length rest)"
proof (induction k pos s caps rule: run.induct)
  case (5 c k pos x xs caps)
  then show ?case by (auto split: if_splits simp: Suc_diff_le)
next
  case (7 c k pos x xs caps)
  then show ?case by (auto split: if_splits option.splits simp: Suc_diff_le)
next
  case (9 r k pos s caps)
  then show ?case by (auto split: option.splits)
qed auto

lemma run_sets:
  "run k pos s caps = Some (e, rest, caps') \<Longrightarrow>
     caps g \<noteq> None \<or> list_ex (frame_sets g) k \<Longrightarrow> caps' g \<noteq> None"
proof (induction k pos s caps rule: run.induct)
  case (5 c k pos x xs caps)
  then show ?case by (auto split: if_splits)
next
  case (7 c k pos x xs caps)
  then show ?case by (auto split: if_splits option.splits)
next
  case (9 r k pos s caps)
  then show ?case by (auto split: option.splits)
qed (auto split: if_splits)


lemma search_from_Some:
  "search_from p subj pos rest = Some (m, rest') \<Longrightarrow>
     \<exists>k\<le>length rest. m_start m = pos + k
        \<and> run [Rx p] (pos + k) (drop k rest) Map.empty = Some (m_end m, rest', m_spans m)
        \<and> m_re m = p \<and> m_string m = subj"
proof (induction rest arbitrary: pos)
  case Nil
  then show ?case by (auto split: option.splits)
next
  case (Cons x xs)
  show ?case
  proof (cases "run [Rx p] pos (x # xs) Map.empty")
    case None
    with Cons.prems have "search_from p subj (Suc pos) xs = Some (m, rest')" by simp
    from Cons.IH[OF this] obtain k where "k \<le> length xs" "m_start m = Suc pos + k"
      "run [Rx p] (Suc pos + k) (drop k xs) Map.empty = Some (m_end m, rest', m_spans m)"
      "m_re m = p" "m_string m = subj" by blast
    then show ?thesis by (intro exI[of _ "Suc k"]) simp
  next
    case (Some r)
    with Cons.prems show ?thesis by (intro exI[of _ 0]) (auto split: prod.splits)
  qed
qed

lemma count_occurrences_drop:
  "k \<le> length rest \<Longrightarrow> count_occurrences p (pos + k) (drop k rest) \<le> count_occurrences p pos rest"
proof (induction rest arbitrary: pos k)
  case Nil
  then show ?case by simp
next
  case (Cons x xs)
  show ?case
  proof (cases k)
    case 0
    then show ?thesis by simp
  next
    case (Suc j)
    with Cons.prems have "j \<le> length xs" by simp
    from Cons.IH[OF this, of "Suc pos"] Suc show ?thesis by simp
  qed
qed

lemma count_occurrences_hit:
  "k < length rest \<Longrightarrow> run [Rx p] (pos + k) (drop k rest) Map.empty \<noteq> None \<Longrightarrow>
     Suc (count_occurrences p (pos + Suc k) (drop (Suc k) rest)) \<le> count_occurrences p pos rest"
proof (induction rest arbitrary: pos k)
  case Nil
  then show ?case by simp
next
  case (Cons x xs)
  show ?case
  proof (cases k)
    case 0
    with Cons.prems show ?thesis by simp
  next
    case (Suc j)
    with Cons.prems have "j < length xs" "run [Rx p] (Suc pos + j) (drop j xs) Map.empty \<noteq> None"
      by simp_all
    from Cons.IH[OF this] Suc show ?thesis by simp
  qed
qed


lemma count_occurrences_pos:
  "k \<le> length rest \<Longrightarrow> run [Rx p] (pos + k) (drop k rest) Map.empty \<noteq> None \<Longrightarrow>
     Suc 0 \<le> count_occurrences p pos rest"
proof (induction rest arbitrary: pos k)
  case Nil
  then show ?case by simp
next
  case (Cons x xs)
  show ?case
  proof (cases k)
    case 0
    with Cons.prems show ?thesis by auto
  next
    case (Suc j)
    with Cons.prems have "j \<le> length xs" "run [Rx p] (Suc pos + j) (drop j xs) Map.empty \<noteq> None"
      by simp_all
    from Cons.IH[OF this] Suc show ?thesis by simp
  qed
qed

lemma finditer_from_length:
  "length (finditer_from p subj pos rest) \<le> count_occurrences p pos rest"
proof (induction p subj pos rest rule: finditer_from.induct)
  case (1 p subj pos rest)
  show ?case
  proof (cases "search_from p subj pos rest")
    case None
    then show ?thesis by (subst finditer_from.simps) simp
  next
    case (Some r)
    obtain m rest' where r: "r = (m, rest')" by (cases r)
    note S = Some[unfolded r]
    from search_from_Some[OF S] obtain k where k: "k \<le> length rest"
      "m_start m = pos + k"
      "run [Rx p] (pos + k) (drop k rest) Map.empty = Some (m_end m, rest', m_spans m)" by blast
    define j where "j = length rest - length rest'"
    from run_end[OF k(3)] k(1) have j: "k \<le> j" "j \<le> length rest" "rest' = drop j rest"
      "m_end m = pos + j" by (auto simp: j_def)
    have hit: "run [Rx p] (pos + k) (drop k rest) Map.empty \<noteq> None" using k(3) by simp
    show ?thesis
    proof (cases "m_start m < m_end m")
      case True
      with k(2) j have kj: "k < j" by simp
      with j have shorter: "length rest' < length rest" by simp
      have step: "length (finditer_from p subj (m_end m) rest') \<le> count_occurrences p (m_end m) rest'"
        using "1.IH"(1)[OF S refl True shorter] .
      from kj j have kl: "k < length rest" by simp
      from kj obtain d where d: "j = Suc k + d" using less_imp_Suc_add by auto
      have "d \<le> length (drop (Suc k) rest)" using j d by simp
      from count_occurrences_drop[OF this, of p "pos + Suc k"] d
      have "count_occurrences p (pos + j) (drop j rest)
              \<le> count_occurrences p (pos + Suc k) (drop (Suc k) rest)"
        by (simp add: ac_simps)
      moreover have "finditer_from p subj pos rest = m # finditer_from p subj (m_end m) rest'"
        by (subst finditer_from.simps) (simp add: S True shorter)
      ultimately show ?thesis
        using count_occurrences_hit[OF kl hit] step j by simp
    next
      case False
      with k(2) j have jk: "j = k" by simp
      show ?thesis
      proof (cases rest')
        case Nil
        with count_occurrences_pos[OF k(1) hit] show ?thesis
          by (subst finditer_from.simps) (simp add: S False)
      next
        case (Cons x xs)
        with j jk have dk: "drop k rest = x # xs" by simp
        have kl: "k < length rest"
        proof (rule ccontr)
          assume "\<not> k < length rest"
          then have "drop k rest = []" by simp
          with dk show False by simp
        qed
        have "drop (Suc k) rest = tl (drop k rest)" by (simp add: drop_Suc tl_drop)
        with dk have xs: "xs = drop (Suc k) rest" by simp
        from xs kl have shorter: "length xs < length rest" by simp
        have "length (finditer_from p subj (Suc (m_end m)) xs)
                \<le> count_occurrences p (Suc (m_end m)) xs"
          using "1.IH"(2)[OF S refl False Cons shorter] .
        moreover have "finditer_from p subj pos rest = m # finditer_from p subj (Suc (m_end m)) xs"
          by (subst finditer_from.simps) (simp add: S False Cons shorter)
        ultimately show ?thesis
          using count_occurrences_hit[OF kl hit] j jk xs by simp
      qed
    qed
  qed
qed

lemma finditer_from_match:
  "m \<in> set (finditer_from p subj pos rest) \<Longrightarrow>
     \<exists>k r'. k \<le> length rest \<and> m_start m = pos + k
        \<and> run [Rx p] (pos + k) (drop k rest) Map.empty = Some (m_end m, r', m_spans m)
        \<and> m_re m = p \<and> m_string m = subj"
proof (induction p subj pos rest rule: finditer_from.induct)
  case (1 p subj pos rest)
  show ?case
  proof (cases "search_from p subj pos rest")
    case None
    with "1.prems" show ?thesis by (subst (asm) finditer_from.simps) simp
  next
    case (Some r)
    obtain m0 rest' where r: "r = (m0, rest')" by (cases r)
    note S = Some[unfolded r]
    from search_from_Some[OF S] obtain k where k: "k \<le> length rest"
      "m_start m0 = pos + k"
      "run [Rx p] (pos + k) (drop k rest) Map.empty = Some (m_end m0, rest', m_spans m0)"
      "m_re m0 = p" "m_string m0 = subj" by blast
    define j where "j = length rest - length rest'"
    from run_end[OF k(3)] k(1) have j: "k \<le> j" "j \<le> length rest" "rest' = drop j rest"
      "m_end m0 = pos + j" by (auto simp: j_def)
    show ?thesis
    proof (cases "m = m0")
      case True
      with k show ?thesis by blast
    next
      case False
      show ?thesis
      proof (cases "m_start m0 < m_end m0")
        case ne: True
        with k(2) j have shorter: "length rest' < length rest" by simp
        have "finditer_from p subj pos rest = m0 # finditer_from p subj (m_end m0) rest'"
          by (subst finditer_from.simps) (simp add: S ne shorter)
        with "1.prems" False have "m \<in> set (finditer_from p subj (m_end m0) rest')" by simp
        from "1.IH"(1)[OF S refl ne shorter this] obtain k' r' where
          "k' \<le> length rest'" "m_start m = m_end m0 + k'"
          "run [Rx p] (m_end m0 + k') (drop k' rest') Map.empty = Some (m_end m, r', m_spans m)"
          "m_re m = p" "m_string m = subj" by blast
        with j show ?thesis
          by (intro exI[of _ "j + k'"] exI[of _ r']) (simp add: ac_simps)
      next
        case e: False
        with k(2) j have jk: "j = k" by simp
        show ?thesis
        proof (cases rest')
          case Nil
          then have "finditer_from p subj pos rest = [m0]"
            by (subst finditer_from.simps) (simp add: S e)
          with "1.prems" False show ?thesis by simp
        next
          case (Cons x xs)
          with j jk have dk: "drop k rest = x # xs" by simp
          have kl: "k < length rest"
          proof (rule ccontr)
            assume "\<not> k < length rest"
            then have "drop k rest = []" by simp
            with dk show False by simp
          qed
          have "drop (Suc k) rest = tl (drop k rest)" by (simp add: drop_Suc tl_drop)
          with dk have xs: "xs = drop (Suc k) rest" by simp
          from xs kl have shorter: "length xs < length rest" by simp
          have "finditer_from p subj pos rest = m0 # finditer_from p subj (Suc (m_end m0)) xs"
            by (subst finditer_from.simps) (simp add: S e Cons shorter)
          with "1.prems" False have "m \<in> set (finditer_from p subj (Suc (m_end m0)) xs)" by simp
          from "1.IH"(2)[OF S refl e Cons shorter this] obtain k' r' where
            "k' \<le> length xs" "m_start m = Suc (m_end m0) + k'"
            "run [Rx p] (Suc (m_end m0) + k') (drop k' xs) Map.empty = Some (m_end m, r', m_spans m)"
            "m_re m = p" "m_string m = subj" by blast
          with j jk xs kl show ?thesis
            by (intro exI[of _ "Suc k + k'"] exI[of _ r']) (simp add: ac_simps)
        qed
      qed
    qed
  qed
qed

lemma finditer_match:
  "m \<in> set (finditer p s) \<Longrightarrow>
     \<exists>r'. m_start m \<le> length s
        \<and> run [Rx p] (m_start m) (drop (m_start m) s) Map.empty = Some (m_end m, r', m_spans m)
        \<and> m_re m = p \<and> m_string m = s"
  unfolding finditer_def by (drule finditer_from_match) auto

lemma finditer_group_set:
  "m \<in> set (finditer p s) \<Longrightarrow> sets_group g p \<Longrightarrow> m_spans m g \<noteq> None"
  by (drule finditer_match) (auto dest!: run_sets[where g = g])

lemma run_lit:
  "run (Rx (lit name) # k) pos s caps =
     (if prefix name s then run k (pos + length name) (drop (length name) s) caps else None)"
proof (induction name arbitrary: pos s)
  case Nil
  then show ?case by simp
next
  case (Cons c cs)
  then show ?case by (cases s) auto
qed

lemma lower_slice: "lower (slice s b e) = slice (lower s) b e"
  by (simp add: lower_def slice_def take_map drop_map)

lemma length_stamp: "length (stamp clk es) = length es"
  by (simp add: stamp_def)

lemma s_inst_stamp: "map s_inst (stamp clk es) = es"
proof -
  have "map s_inst (map (\<lambda>(i, e). new_entity (clk i) e) (enumerate n es)) = es" for n
    by (induction es arbitrary: n) (simp_all add: new_entity_def silver_layer_def)
  then show ?thesis unfolding stamp_def by blast
qed

lemma collect_map_Inr: "collect (map Inr xs) = Inr xs"
  by (induction xs) simp_all

section \<open>Aggregation: conditions\<close>

text \<open>
  Claim C5. For every entity list, the profile has \<open>primary_conditions\<close> equal to the
  first three diagnosis entity values, in the order of the list, and \<open>comorbidities\<close>
  equal to the remaining ones: at most three primary conditions, and the two lists
  together are the diagnosis values in their original order. Four diagnoses
  \<open>[D1, D2, D3, D4]\<close> give primary \<open>[D1, D2, D3]\<close> and comorbidities \<open>[D4]\<close>.
\<close>

theorem primary_comorbidity_split:
  fixes entities :: "entity list" and tr clk pid demo
  defines "diagnoses \<equiv> map (\<lambda>e. entity_value (s_inst e))
                          (filter (\<lambda>e. entity_type (s_inst e) = ''diagnosis'') entities)"
  defines "p \<equiv> g_inst (fst (silver_to_gold_patient tr clk pid entities demo))"
  shows "primary_conditions p = take 3 diagnoses
       \<and> comorbidities p = drop 3 diagnoses
       \<and> length (primary_conditions p) \<le> 3
       \<and> primary_conditions p @ comorbidities p = diagnoses
       \<and> (diagnoses = [D1, D2, D3, D4] \<longrightarrow>
            primary_conditions p = [D1, D2, D3] \<and> comorbidities p = [D4])"
  by (auto simp: p_def diagnoses_def silver_to_gold_patient_def Let_def new_profile_def
        gold_layer_def values_of_type_def)

theorem primary_comorbidity_split_witness:
  "map (\<lambda>e. entity_value (s_inst e))
     (filter (\<lambda>e. entity_type (s_inst e) = ''diagnosis'') four_diagnoses)
     = [''Type 2 Diabetes'', ''Essential Hypertension'', ''Hyperlipidemia'', ''Obesity'']
   \<and> primary_conditions
        (g_inst (fst (silver_to_gold_patient empty_transformer (const_clock ''t'') ''P001''
                        four_diagnoses demo_52)))
       = [''Type 2 Diabetes'', ''Essential Hypertension'', ''Hyperlipidemia'']
   \<and> comorbidities
        (g_inst (fst (silver_to_gold_patient empty_transformer (const_clock ''t'') ''P001''
                        four_diagnoses demo_52)))
       = [''Obesity'']"
proof -
  have h: "map (\<lambda>e. entity_value (s_inst e))
             (filter (\<lambda>e. entity_type (s_inst e) = ''diagnosis'') four_diagnoses)
           = [''Type 2 Diabetes'', ''Essential Hypertension'', ''Hyperlipidemia'', ''Obesity'']"
    by (simp add: four_diagnoses_def diagnosis_entity_def new_entity_def silver_layer_def)
  from primary_comorbidity_split[where entities = four_diagnoses and tr = empty_transformer
      and clk = "const_clock ''t''" and pid = "''P001''" and demo = demo_52
      and ?D1.0 = "''Type 2 Diabetes''" and ?D2.0 = "''Essential Hypertension''"
      and ?D3.0 = "''Hyperlipidemia''" and ?D4.0 = "''Obesity''"] h
  show ?thesis by blast
qed

section \<open>Quality scores\<close>

text \<open>
  The generic entity score is capped at 1; the medication score is at most
  \<open>0.7 + 0.3\<close>; the diagnosis score stays in range for a confidence in range. The lab
  result score has no cap and its additions sum to 1.1.
\<close>

lemma entity_score_le_one: "SilverClinicalEntity_calculate_quality_score e \<le> 1"
  by (simp add: SilverClinicalEntity_calculate_quality_score_def Let_def)

lemma entity_score_nonneg:
  "0 \<le> confidence_score e \<Longrightarrow> 0 \<le> SilverClinicalEntity_calculate_quality_score e"
  by (simp add: SilverClinicalEntity_calculate_quality_score_def Let_def)

lemma medication_score_bounds:
  "0 \<le> SilverMedication_calculate_quality_score m \<and> SilverMedication_calculate_quality_score m \<le> 1"
  by (simp add: SilverMedication_calculate_quality_score_def Let_def)

lemma diagnosis_score_bounds:
  "0 \<le> dx_confidence_score d \<Longrightarrow> dx_confidence_score d \<le> 1 \<Longrightarrow>
     0 \<le> SilverDiagnosis_calculate_quality_score d \<and> SilverDiagnosis_calculate_quality_score d \<le> 1"
  by (simp add: SilverDiagnosis_calculate_quality_score_def Let_def)

lemma lab_result_score_range:
  "6 / 10 \<le> SilverLabResult_calculate_quality_score r \<and> SilverLabResult_calculate_quality_score r \<le> 11 / 10"
  by (simp add: SilverLabResult_calculate_quality_score_def Let_def)

text \<open>
  Claim C3. Every quality-scoring function returns a value in \<open>[0, 1]\<close>; in particular
  the lab-result score (base 0.6, plus 0.1 for unit, 0.1 for reference range, 0.1 for
  abnormal flag, 0.2 for coding) lies between 0 and 1. The code at a lab result with all
  four present: the score is 1.1, and that is what the decorator stores.
\<close>

theorem lab_result_score_above_one:
  "SilverLabResult_calculate_quality_score full_lab_result = 11 / 10
   \<and> quality_score (silver_layer SilverLabResult_calculate_quality_score ''2024-01-15T10:00:00''
                       full_lab_result) = 11 / 10
   \<and> \<not> SilverLabResult_calculate_quality_score full_lab_result \<le> 1"
  by (simp add: SilverLabResult_calculate_quality_score_def full_lab_result_def truthy_def
        silver_layer_def)

section \<open>Diabetes control\<close>

text \<open>
  The entity value of an A1C lab entity starts with the name \<open>hemoglobin_a1c\<close>, and the
  first run of digits in it is the \<open>1\<close> of the name: that is what the assessment parses,
  whatever value follows.
\<close>

lemma py_float_one: "py_float ''1'' = Some 1"
  by code_simp

lemma a1c_value_reads_the_name:
  "search_float first_number (''hemoglobin_a1c: '' @ v) = Some 1"
proof -
  have "search first_number (''hemoglobin_a1c: '' @ v)
          = Some \<lparr>m_re = first_number, m_string = ''hemoglobin_a1c: '' @ v,
                  m_start = 12, m_end = 13, m_spans = [1 \<mapsto> (12, 13)]\<rparr>"
    by (simp add: search_def first_number_def is_digit_def eval_nat_numeral)
  then show ?thesis
    by (simp add: search_float_def m_group_def slice_def py_float_one eval_nat_numeral)
qed

lemma a1c_entity_always_well_controlled:
  "assess_diabetes_control (a1c_entity now v # rest) = ''well_controlled''"
  using a1c_value_reads_the_name[of v]
  by (simp add: assess_diabetes_control_def a1c_entity_def new_entity_def silver_layer_def)

text \<open>
  Claim C1. With a lab entity that mentions the A1C measurement, \<open>diabetes_controlled\<close>
  is determined by the parsed A1C value of the first such entity: below 7.0
  \<open>well_controlled\<close>, below 8.0 \<open>moderately_controlled\<close>, else \<open>poorly_controlled\<close>. The
  code at the entity extraction builds for \<open>A1C: 8.2%\<close>: the parsed number is 1 and the
  answer is \<open>well_controlled\<close>.
\<close>

theorem a1c_8_2_assessed_well_controlled:
  "assess_diabetes_control [a1c_entity ''2024-01-15T10:00:00'' ''8.2''] = ''well_controlled''
   \<and> search_float first_number ''hemoglobin_a1c: 8.2'' = Some 1"
  using a1c_entity_always_well_controlled[of "''2024-01-15T10:00:00''" "''8.2''" "[]"]
    a1c_value_reads_the_name[of "''8.2''"] by simp

section \<open>Business value\<close>

lemma list_ex_filter_nonempty: "(filter P xs \<noteq> []) = list_ex P xs"
  by (induction xs) auto

text \<open>
  Claim C4, as amended. For every profile produced by aggregation, the completeness term
  of the business value is the number of true conditions among: \<open>primary_conditions\<close> not
  empty, \<open>current_medications\<close> not empty, \<open>geographic_location\<close> a non-empty string,
  \<open>age_years\<close> not zero, \<open>sex\<close> a non-empty string, divided by 5; the placeholder
  \<open>unknown\<close> is a non-empty string and counts. In terms of the inputs: an entity of type
  diagnosis exists, an entity of type medication exists, and the three demographic
  values after defaulting. The business value is 0.7 times completeness plus 0.3 times
  richness. So an empty entity list with demographics age 0, sex \<open>unknown\<close>, location
  \<open>unknown\<close> gives completeness 2/5, richness 0 and business value 0.28.
\<close>

theorem completeness_counts_truthy_fields:
  fixes entities :: "entity list" and tr clk pid demo
  defines "p \<equiv> fst (silver_to_gold_patient tr clk pid entities demo)"
  shows "completeness (g_inst p) =
           of_nat (length (filter id
             [primary_conditions (g_inst p) \<noteq> [],
              current_medications (g_inst p) \<noteq> [],
              geographic_location (g_inst p) \<noteq> [],
              age_years (g_inst p) \<noteq> 0,
              sex (g_inst p) \<noteq> []])) / 5
       \<and> completeness (g_inst p) =
           of_nat (length (filter id
             [list_ex (\<lambda>e. entity_type (s_inst e) = ''diagnosis'') entities,
              list_ex (\<lambda>e. entity_type (s_inst e) = ''medication'') entities,
              get_or (d_location demo) ''unknown'' \<noteq> [],
              get_or (d_age demo) 0 \<noteq> 0,
              get_or (d_sex demo) ''unknown'' \<noteq> []])) / 5
       \<and> business_value p = completeness (g_inst p) * (7 / 10) + richness (g_inst p) * (3 / 10)
       \<and> (entities = [] \<and> demo = demo_unknown \<longrightarrow>
            completeness (g_inst p) = 2 / 5 \<and> richness (g_inst p) = 0
            \<and> business_value p = 7 / 25)"
proof -
  have tk: "\<And>xs :: string list. (take 3 xs \<noteq> []) = (xs \<noteq> [])" by (case_tac xs) auto
  show ?thesis
    unfolding p_def silver_to_gold_patient_def Let_def new_profile_def gold_layer_def
      values_of_type_def completeness_def richness_def calculate_business_value_def
      demo_unknown_def get_or_def
    by (auto simp: tk list_ex_filter_nonempty)
qed

theorem completeness_counts_truthy_fields_witness:
  "completeness (g_inst (fst (silver_to_gold_patient empty_transformer (const_clock ''t'') ''P001''
                                 [] demo_unknown))) = 2 / 5
   \<and> richness (g_inst (fst (silver_to_gold_patient empty_transformer (const_clock ''t'') ''P001''
                               [] demo_unknown))) = 0
   \<and> business_value (fst (silver_to_gold_patient empty_transformer (const_clock ''t'') ''P001''
                            [] demo_unknown)) = 7 / 25"
  using completeness_counts_truthy_fields[where entities = "[]" and demo = demo_unknown
      and tr = empty_transformer and clk = "const_clock ''t''" and pid = "''P001''"]
  by blast

text \<open>
  Claim C4 as stated says that this input gives completeness 0/5 and a business value
  of 0.3 times the richness. Both fail.
\<close>

theorem completeness_unknown_counterexample:
  "completeness (g_inst (fst (silver_to_gold_patient empty_transformer (const_clock ''t'') ''P001''
                                 [] demo_unknown))) \<noteq> 0 / 5
   \<and> business_value (fst (silver_to_gold_patient empty_transformer (const_clock ''t'') ''P001''
                            [] demo_unknown))
       \<noteq> (3 / 10) * richness (g_inst (fst (silver_to_gold_patient empty_transformer
                                              (const_clock ''t'') ''P001'' [] demo_unknown)))"
  by (simp add: silver_to_gold_patient_def Let_def new_profile_def gold_layer_def
      values_of_type_def completeness_def richness_def calculate_business_value_def
      demo_unknown_def get_or_def)

section \<open>Aggregation and the clock\<close>

text \<open>
  Claim C6, as amended. Two calls of aggregation with the same patient id, entity list
  and demographics give profiles with the same data fields and the same business value,
  whatever the transformation log holds and whatever the clock reads. The profile also
  carries the layer name and the clock reading of its construction, and the call
  appends one entry to the transformation log; when the clock reads the same at both
  constructions the two profiles are equal in everything.
\<close>

theorem aggregate_same_fields:
  fixes entities :: "entity list"
  shows "g_inst (fst (silver_to_gold_patient tr1 clk1 pid entities demo))
           = g_inst (fst (silver_to_gold_patient tr2 clk2 pid entities demo))
       \<and> business_value (fst (silver_to_gold_patient tr1 clk1 pid entities demo))
           = business_value (fst (silver_to_gold_patient tr2 clk2 pid entities demo))
       \<and> g_layer (fst (silver_to_gold_patient tr1 clk1 pid entities demo)) = ''gold''
       \<and> enriched_at (fst (silver_to_gold_patient tr1 clk1 pid entities demo)) = clk1 0
       \<and> transformation_log (snd (silver_to_gold_patient tr1 clk1 pid entities demo))
           = transformation_log tr1
             @ [\<lparr>timestamp = clk1 1, stage = ''silver_to_gold'', entity_id = pid,
                 metric = Score (business_value
                            (fst (silver_to_gold_patient tr1 clk1 pid entities demo)))\<rparr>]
       \<and> (clk1 0 = clk2 0 \<longrightarrow>
            fst (silver_to_gold_patient tr1 clk1 pid entities demo)
              = fst (silver_to_gold_patient tr2 clk2 pid entities demo))"
  by (simp add: silver_to_gold_patient_def Let_def new_profile_def gold_layer_def
      log_transformation_def)

theorem aggregate_same_fields_witness:
  "const_clock ''2024-01-15T10:00:00'' 0 = const_clock ''2024-01-15T10:00:00'' 0
   \<and> fst (silver_to_gold_patient empty_transformer (const_clock ''2024-01-15T10:00:00'') ''P001''
            four_diagnoses demo_52)
       = fst (silver_to_gold_patient
               (snd (silver_to_gold_patient empty_transformer (const_clock ''2024-01-15T10:00:00'')
                       ''P001'' four_diagnoses demo_52))
               (const_clock ''2024-01-15T10:00:00'') ''P001'' four_diagnoses demo_52)"
  using aggregate_same_fields[where ?tr1.0 = empty_transformer
      and ?clk1.0 = "const_clock ''2024-01-15T10:00:00''"
      and ?tr2.0 = "snd (silver_to_gold_patient empty_transformer
                      (const_clock ''2024-01-15T10:00:00'') ''P001'' four_diagnoses demo_52)"
      and ?clk2.0 = "const_clock ''2024-01-15T10:00:00''"
      and pid = "''P001''" and entities = four_diagnoses and demo = demo_52]
  by blast

text \<open>
  Claim C6 as stated says that the two profiles are identical bit for bit and that
  aggregation has no hidden state. Two calls one second apart, the second on the
  transformer the first one left: the profiles differ, and the first call changed the log.
\<close>

theorem aggregate_twice_counterexample:
  "fst (silver_to_gold_patient empty_transformer (const_clock ''2024-01-15T10:00:00'') ''P001''
          four_diagnoses demo_52)
     \<noteq> fst (silver_to_gold_patient
              (snd (silver_to_gold_patient empty_transformer (const_clock ''2024-01-15T10:00:00'')
                      ''P001'' four_diagnoses demo_52))
              (const_clock ''2024-01-15T10:00:01'') ''P001'' four_diagnoses demo_52)
   \<and> transformation_log (snd (silver_to_gold_patient empty_transformer
                                (const_clock ''2024-01-15T10:00:00'') ''P001'' four_diagnoses demo_52))
       \<noteq> transformation_log empty_transformer"
  by (simp add: silver_to_gold_patient_def Let_def new_profile_def gold_layer_def
      log_transformation_def const_clock_def empty_transformer_def)

section \<open>Extraction never fails\<close>

text \<open>
  Group 1 of a medication pattern takes part in every match, so the medication name is
  never \<open>None\<close> and no call of extraction raises.
\<close>

lemma med_pattern_sets_1: "sets_group 1 (med_pattern name)"
  by (simp add: med_pattern_def)

lemma medication_match_pattern:
  "m \<in> set (medication_matches text) \<Longrightarrow>
     \<exists>name\<in>set med_names. m \<in> set (finditer (med_pattern name) (lower text))"
  by (auto simp: medication_matches_def med_patterns_def)

lemma medication_args_Inr:
  "m \<in> set (medication_matches text) \<Longrightarrow> \<exists>e. medication_args m = Inr e"
proof -
  assume "m \<in> set (medication_matches text)"
  then obtain name where "m \<in> set (finditer (med_pattern name) (lower text))"
    using medication_match_pattern by blast
  from finditer_group_set[OF this med_pattern_sets_1] obtain sp where "m_spans m 1 = Some sp"
    by blast
  then show ?thesis by (simp add: medication_args_def m_group_def Let_def)
qed

lemma extract_medications_Inr:
  "extract_medications clk text
     = Inr (stamp clk (map (projr \<circ> medication_args) (medication_matches text)))"
proof -
  have eq: "map medication_args (medication_matches text)
          = map Inr (map (projr \<circ> medication_args) (medication_matches text))"
    using medication_args_Inr by (fastforce simp: comp_def)
  show ?thesis unfolding extract_medications_def by (subst eq) (simp only: collect_map_Inr sum.case)
qed

lemma length_extract_medications:
  "extract_medications clk text = Inr es \<Longrightarrow> length es = length (medication_matches text)"
  by (auto simp: extract_medications_Inr length_stamp)

lemma length_concat_le:
  "(\<And>x. x \<in> set xs \<Longrightarrow> length (f x) \<le> g x) \<Longrightarrow> length (concat (map f xs)) \<le> sum_list (map g xs)"
  by (induction xs) (auto simp: add_mono)

lemma finditer_length: "length (finditer p s) \<le> count_occurrences p 0 s"
  by (simp add: finditer_def finditer_from_length)

lemma medication_matches_length:
  "length (medication_matches text) \<le> (\<Sum>p\<leftarrow>med_patterns. count_occurrences p 0 (lower text))"
  unfolding medication_matches_def by (rule length_concat_le) (rule finditer_length)

lemma diagnosis_matches_length:
  "length (diagnosis_matches text)
     \<le> (\<Sum>p\<leftarrow>map fst diagnosis_patterns. count_occurrences p 0 (lower text))"
proof -
  have "length (diagnosis_matches text)
          \<le> sum_list (map (\<lambda>(p, icd, nm). count_occurrences p 0 (lower text)) diagnosis_patterns)"
    unfolding diagnosis_matches_def
    by (rule length_concat_le) (auto simp: finditer_length)
  also have "\<dots> = (\<Sum>p\<leftarrow>map fst diagnosis_patterns. count_occurrences p 0 (lower text))"
    by (simp add: comp_def case_prod_unfold)
  finally show ?thesis .
qed

lemma lab_matches_length:
  "length (lab_matches text)
     \<le> (\<Sum>p\<leftarrow>map fst lab_patterns. count_occurrences p 0 (lower text))"
proof -
  have "length (lab_matches text)
          \<le> sum_list (map (\<lambda>(p, nm). count_occurrences p 0 (lower text)) lab_patterns)"
    unfolding lab_matches_def
    by (rule length_concat_le) (auto simp: finditer_length)
  also have "\<dots> = (\<Sum>p\<leftarrow>map fst lab_patterns. count_occurrences p 0 (lower text))"
    by (simp add: comp_def case_prod_unfold)
  finally show ?thesis .
qed

lemma bronze_to_silver_document_Inr:
  "bronze_to_silver_document tr clk d =
     (let meds = stamp clk (map (projr \<circ> medication_args) (medication_matches (raw_content d)));
          diags = extract_diagnoses (\<lambda>i. clk (length meds + i)) (raw_content d);
          labs = extract_lab_values (\<lambda>i. clk (length meds + length diags + i)) (raw_content d);
          entities = meds @ diags @ labs
      in Inr (entities,
              log_transformation tr (clk (length entities)) ''bronze_to_silver''
                (document_id d) (Count (length entities))))"
  by (simp add: bronze_to_silver_document_def extract_medications_Inr Let_def)

lemma extraction_length:
  "bronze_to_silver_document tr clk d = Inr (es, tr') \<Longrightarrow>
     length es = length (medication_matches (raw_content d))
               + length (diagnosis_matches (raw_content d))
               + length (lab_matches (raw_content d))"
  by (auto simp: bronze_to_silver_document_Inr Let_def length_stamp extract_diagnoses_def
        extract_lab_values_def)

lemma occurrences_empty: "occurrences [] = 0"
  by code_simp

text \<open>
  Claim C7. For every input text, extraction returns, without error, a list of entities
  no longer than the number of occurrences of known terms in the text; a text with no
  occurrence, and the empty text, give the empty list.
\<close>

theorem extraction_total_and_bounded:
  "\<exists>es tr'. bronze_to_silver_document tr clk d = Inr (es, tr')
      \<and> length es \<le> occurrences (raw_content d)
      \<and> (occurrences (raw_content d) = 0 \<longrightarrow> es = [])
      \<and> (raw_content d = [] \<longrightarrow> es = [])"
proof -
  obtain es tr' where b: "bronze_to_silver_document tr clk d = Inr (es, tr')"
    by (simp add: bronze_to_silver_document_Inr Let_def)
  have "length es \<le> occurrences (raw_content d)"
    using extraction_length[OF b] medication_matches_length[of "raw_content d"]
      diagnosis_matches_length[of "raw_content d"] lab_matches_length[of "raw_content d"]
    by (simp add: occurrences_def all_patterns_def)
  with b occurrences_empty show ?thesis by auto
qed

lemma plain_text_occurrences: "occurrences plain_text = 0"
  by code_simp

theorem extraction_total_and_bounded_witness:
  "occurrences (raw_content (doc_of plain_text)) = 0
   \<and> (\<exists>tr'. bronze_to_silver_document empty_transformer (const_clock ''t'') (doc_of plain_text)
               = Inr ([], tr'))"
proof -
  have h: "occurrences (raw_content (doc_of plain_text)) = 0"
    by (simp add: doc_of_def plain_text_occurrences)
  from extraction_total_and_bounded[of empty_transformer "const_clock ''t''" "doc_of plain_text"] h
  show ?thesis by auto
qed

section \<open>The entities of a document\<close>

lemma mixed_text_extraction:
  "bronze_to_silver_document empty_transformer (const_clock ''t'') (doc_of mixed_text)
     = Inr (mixed_entities,
            \<lparr>transformation_log =
               [\<lparr>timestamp = ''t'', stage = ''bronze_to_silver'', entity_id = ''doc_001'',
                 metric = Count 3\<rparr>]\<rparr>)"
  by code_simp

lemma extraction_fields:
  "bronze_to_silver_document tr clk d = Inr (es, tr') \<Longrightarrow>
     map s_inst es
       = map (projr \<circ> medication_args) (medication_matches (raw_content d))
         @ map (\<lambda>(icd_code, standard_name, m). diagnosis_args icd_code standard_name m)
             (diagnosis_matches (raw_content d))
         @ map (\<lambda>(lab_name, m). lab_args lab_name m) (lab_matches (raw_content d))"
  by (auto simp: bronze_to_silver_document_Inr Let_def s_inst_stamp extract_diagnoses_def
        extract_lab_values_def)

lemma medication_args_type:
  "medication_args m = Inr e \<Longrightarrow> entity_type e = ''medication''"
  by (auto simp: medication_args_def Let_def split: option.splits)

lemma extraction_types:
  assumes "bronze_to_silver_document tr clk d = Inr (es, tr')" and "e \<in> set es"
  shows "entity_type (s_inst e) \<in> {''medication'', ''diagnosis'', ''lab_value''}"
proof -
  from assms(2) have "s_inst e \<in> set (map s_inst es)" by simp
  then consider
      m where "m \<in> set (medication_matches (raw_content d))" "s_inst e = projr (medication_args m)"
    | icd nm m where "s_inst e = diagnosis_args icd nm m"
    | nm m where "s_inst e = lab_args nm m"
    unfolding extraction_fields[OF assms(1)] by auto
  then show ?thesis
  proof cases
    case 1
    from medication_args_Inr[OF 1(1)] obtain x where "medication_args m = Inr x" by blast
    with 1(2) medication_args_type[OF this] show ?thesis by simp
  next
    case 2
    then show ?thesis by (simp add: diagnosis_args_def)
  next
    case 3
    then show ?thesis by (simp add: lab_args_def)
  qed
qed

text \<open>
  Claim C8. For every input text, every entity that extraction produces has entity type
  medication, diagnosis or lab\_value, never contraindication; so the contraindications
  of a profile aggregated from extracted entities are empty.
\<close>

theorem extraction_never_contraindication:
  assumes "bronze_to_silver_document tr clk d = Inr (es, tr')"
  shows "(\<forall>e\<in>set es. entity_type (s_inst e) \<in> {''medication'', ''diagnosis'', ''lab_value''})
       \<and> (\<forall>e\<in>set es. entity_type (s_inst e) \<noteq> ''contraindication'')
       \<and> contraindications (g_inst (fst (silver_to_gold_patient tr2 clk2 pid es demo))) = []"
proof -
  have t: "\<forall>e\<in>set es. entity_type (s_inst e) \<in> {''medication'', ''diagnosis'', ''lab_value''}"
    using extraction_types[OF assms] by blast
  then have n: "\<forall>e\<in>set es. entity_type (s_inst e) \<noteq> ''contraindication''" by auto
  then have "filter (\<lambda>e. entity_type (s_inst e) = ''contraindication'') es = []"
    by (simp add: filter_empty_conv)
  then have "contraindications (g_inst (fst (silver_to_gold_patient tr2 clk2 pid es demo))) = []"
    by (simp add: silver_to_gold_patient_def Let_def new_profile_def gold_layer_def
        values_of_type_def)
  with t n show ?thesis by blast
qed

theorem extraction_never_contraindication_witness:
  "bronze_to_silver_document empty_transformer (const_clock ''t'') (doc_of mixed_text)
     = Inr (mixed_entities,
            \<lparr>transformation_log =
               [\<lparr>timestamp = ''t'', stage = ''bronze_to_silver'', entity_id = ''doc_001'',
                 metric = Count 3\<rparr>]\<rparr>)
   \<and> contraindications
        (g_inst (fst (silver_to_gold_patient empty_transformer (const_clock ''t'') ''P001''
                        mixed_entities demo_52))) = []"
  using extraction_never_contraindication[OF mixed_text_extraction, of empty_transformer
      "const_clock ''t''" "''P001''" demo_52] mixed_text_extraction
  by blast

section \<open>Letter case\<close>

text \<open>
  Every pattern is run over \<open>text.lower()\<close>, and the match objects slice that lowercased
  text.
\<close>

lemma lower_fixed_iff: "(lower s = s) = (\<forall>c\<in>set s. lower_char c = c)"
  unfolding lower_def by (induction s) auto

lemma lower_strip: "lower s = s \<Longrightarrow> lower (strip s) = strip s"
  unfolding lower_fixed_iff strip_def by (auto dest!: set_dropWhileD)

lemma lower_append: "lower (a @ b) = lower a @ lower b"
  by (simp add: lower_def)

lemma matches_lower:
  "medication_matches (lower t) = medication_matches t"
  "diagnosis_matches (lower t) = diagnosis_matches t"
  "lab_matches (lower t) = lab_matches t"
  by (simp_all add: medication_matches_def diagnosis_matches_def lab_matches_def lower_idem)

lemma matches_case_invariant:
  assumes "lower t = lower u"
  shows "medication_matches t = medication_matches u"
    and "diagnosis_matches t = diagnosis_matches u"
    and "lab_matches t = lab_matches u"
  using assms by (simp_all add: medication_matches_def diagnosis_matches_def lab_matches_def)

lemma extraction_case_invariant:
  "lower t = lower (raw_content d) \<Longrightarrow>
     bronze_to_silver_document tr clk (d\<lparr>raw_content := t\<rparr>) = bronze_to_silver_document tr clk d"
  by (simp add: bronze_to_silver_document_Inr Let_def extract_diagnoses_def extract_lab_values_def
      matches_case_invariant[of t "raw_content d"])

lemma whole_lower:
  "m \<in> set (finditer p (lower t)) \<Longrightarrow> lower (whole m) = whole m"
  by (drule finditer_match) (auto simp: whole_def lower_slice lower_idem)

lemma group_lower:
  "m \<in> set (finditer p (lower t)) \<Longrightarrow> m_group m g = Some v \<Longrightarrow> lower v = v"
  by (drule finditer_match)
     (auto simp: m_group_def whole_def lower_slice lower_idem split: if_splits)

lemma lower_space: "lower '' '' = '' ''" and lower_colon: "lower '': '' = '': ''"
  by code_simp+

lemma medication_fields_lower:
  assumes "m \<in> set (medication_matches t)" and "medication_args m = Inr e"
  shows "lower (extracted_from e) = extracted_from e \<and> lower (entity_value e) = entity_value e"
proof -
  from medication_match_pattern[OF assms(1)] obtain name
    where m: "m \<in> set (finditer (med_pattern name) (lower t))" by blast
  from assms(2) obtain nm where nm: "m_group m 1 = Some nm"
    by (auto simp: medication_args_def Let_def split: option.splits)
  have n: "lower nm = nm" using group_lower[OF m nm] .
  have w: "lower (whole m) = whole m" using whole_lower[OF m] .
  have v: "lower (entity_value e) = entity_value e"
  proof (cases "m_group m 2")
    case None
    with assms(2) nm n show ?thesis
      by (auto simp: medication_args_def Let_def truthy_def)
  next
    case (Some dz)
    have "lower dz = dz" using group_lower[OF m Some] .
    then have "lower (nm @ '' '' @ dz) = nm @ '' '' @ dz"
      using n lower_space by (simp only: lower_append)
    from lower_strip[OF this] assms(2) nm n Some show ?thesis
      by (auto simp: medication_args_def Let_def truthy_def split: if_splits)
  qed
  from assms(2) nm w v show ?thesis
    by (auto simp: medication_args_def Let_def)
qed

lemma diagnosis_fields_lower:
  assumes "(icd, nm, m) \<in> set (diagnosis_matches t)"
  shows "lower (extracted_from (diagnosis_args icd nm m)) = extracted_from (diagnosis_args icd nm m)"
proof -
  from assms obtain p where "m \<in> set (finditer p (lower t))"
    by (auto simp: diagnosis_matches_def)
  from whole_lower[OF this] show ?thesis by (simp add: diagnosis_args_def)
qed

lemma lab_names_lower: "list_all (\<lambda>(p, nm). lower nm = nm \<and> sets_group 1 p) lab_patterns"
  by code_simp

lemma lab_fields_lower:
  assumes "(nm, m) \<in> set (lab_matches t)"
  shows "lower (extracted_from (lab_args nm m)) = extracted_from (lab_args nm m)
       \<and> lower (entity_value (lab_args nm m)) = entity_value (lab_args nm m)"
proof -
  from assms obtain p where p: "(p, nm) \<in> set lab_patterns" "m \<in> set (finditer p (lower t))"
    by (auto simp: lab_matches_def)
  from p(1) lab_names_lower have nm: "lower nm = nm" and g: "sets_group 1 p"
    by (auto simp: list_all_iff)
  from finditer_group_set[OF p(2) g] obtain v where v: "m_group m 1 = Some v"
    by (auto simp: m_group_def)
  have "lower v = v" using group_lower[OF p(2) v] .
  with nm lower_colon have "lower (nm @ '': '' @ v) = nm @ '': '' @ v"
    by (simp only: lower_append)
  with v whole_lower[OF p(2)] show ?thesis by (simp add: lab_args_def)
qed

lemma extraction_fields_lower:
  assumes "bronze_to_silver_document tr clk d = Inr (es, tr')" and "e \<in> set es"
  shows "lower (extracted_from (s_inst e)) = extracted_from (s_inst e)
       \<and> (entity_type (s_inst e) = ''medication'' \<or> entity_type (s_inst e) = ''lab_value''
            \<longrightarrow> lower (entity_value (s_inst e)) = entity_value (s_inst e))"
proof -
  from assms(2) have "s_inst e \<in> set (map s_inst es)" by simp
  then consider
      m where "m \<in> set (medication_matches (raw_content d))" "s_inst e = projr (medication_args m)"
    | icd nm m where "(icd, nm, m) \<in> set (diagnosis_matches (raw_content d))"
        "s_inst e = diagnosis_args icd nm m"
    | nm m where "(nm, m) \<in> set (lab_matches (raw_content d))" "s_inst e = lab_args nm m"
    unfolding extraction_fields[OF assms(1)] by auto
  then show ?thesis
  proof cases
    case 1
    from medication_args_Inr[OF 1(1)] obtain x where x: "medication_args m = Inr x" by blast
    from medication_fields_lower[OF 1(1) x] 1(2) x show ?thesis by simp
  next
    case 2
    from diagnosis_fields_lower[OF 2(1)] 2(2) show ?thesis by (simp add: diagnosis_args_def)
  next
    case 3
    from lab_fields_lower[OF 3(1)] 3(2) show ?thesis by simp
  qed
qed

text \<open>
  Claim C9. Extraction of a text equals extraction of the lowercased text, and of any
  text that differs from it in letter case only; \<open>extracted_from\<close> of every entity, and
  \<open>entity_value\<close> of every medication and lab entity, are lowercase.
\<close>

theorem extraction_ignores_case:
  "(lower t = lower (raw_content d) \<longrightarrow>
      bronze_to_silver_document tr clk (d\<lparr>raw_content := t\<rparr>) = bronze_to_silver_document tr clk d)
   \<and> bronze_to_silver_document tr clk (d\<lparr>raw_content := lower (raw_content d)\<rparr>)
       = bronze_to_silver_document tr clk d
   \<and> (bronze_to_silver_document tr clk d = Inr (es, tr') \<longrightarrow>
        (\<forall>e\<in>set es.
           lower (extracted_from (s_inst e)) = extracted_from (s_inst e)
           \<and> (entity_type (s_inst e) = ''medication'' \<or> entity_type (s_inst e) = ''lab_value''
                \<longrightarrow> lower (entity_value (s_inst e)) = entity_value (s_inst e))))"
  using extraction_case_invariant[of t d tr clk]
    extraction_case_invariant[of "lower (raw_content d)" d tr clk]
    extraction_fields_lower[of tr clk d es tr']
  by (simp add: lower_idem)

lemma mixed_text_alt_lower: "lower mixed_text_alt = lower (raw_content (doc_of mixed_text))"
  by code_simp

theorem extraction_ignores_case_witness:
  "lower mixed_text_alt = lower (raw_content (doc_of mixed_text))
   \<and> bronze_to_silver_document empty_transformer (const_clock ''t'')
        ((doc_of mixed_text)\<lparr>raw_content := mixed_text_alt\<rparr>)
       = bronze_to_silver_document empty_transformer (const_clock ''t'') (doc_of mixed_text)
   \<and> list_all
        (\<lambda>e. lower (extracted_from (s_inst e)) = extracted_from (s_inst e)
           \<and> (entity_type (s_inst e) = ''medication'' \<or> entity_type (s_inst e) = ''lab_value''
                \<longrightarrow> lower (entity_value (s_inst e)) = entity_value (s_inst e)))
        mixed_entities"
  using extraction_ignores_case[of mixed_text_alt "doc_of mixed_text" empty_transformer
      "const_clock ''t''" mixed_entities
      "\<lparr>transformation_log =
          [\<lparr>timestamp = ''t'', stage = ''bronze_to_silver'', entity_id = ''doc_001'',
            metric = Count 3\<rparr>]\<rparr>"]
    mixed_text_alt_lower mixed_text_extraction
  unfolding list_all_iff by blast

section \<open>Medication names and the whitespace after them\<close>

lemma name_then_space_iff:
  "name_then_space name s = (\<exists>pre c post. s = pre @ name @ c # post \<and> is_space c)"
proof (induction s)
  case Nil
  then show ?case by simp
next
  case (Cons x xs)
  show ?case
  proof
    assume "name_then_space name (x # xs)"
    then consider "prefix name (x # xs)"
        "case drop (length name) (x # xs) of [] \<Rightarrow> False | c # _ \<Rightarrow> is_space c"
      | "name_then_space name xs" by auto
    then show "\<exists>pre c post. x # xs = pre @ name @ c # post \<and> is_space c"
    proof cases
      case 1
      from 1(1) obtain r where r: "x # xs = name @ r" by (auto simp: prefix_def)
      with 1(2) obtain c post where "r = c # post" "is_space c"
        by (auto split: list.splits)
      with r show ?thesis by (intro exI[of _ "[]"]) auto
    next
      case 2
      with Cons.IH obtain pre c post where "xs = pre @ name @ c # post" "is_space c" by blast
      then show ?thesis by (intro exI[of _ "x # pre"]) auto
    qed
  next
    assume "\<exists>pre c post. x # xs = pre @ name @ c # post \<and> is_space c"
    then obtain pre c post where e: "x # xs = pre @ name @ c # post" "is_space c" by blast
    show "name_then_space name (x # xs)"
    proof (cases pre)
      case Nil
      with e have "prefix name (x # xs)" "drop (length name) (x # xs) = c # post"
        by (auto simp: prefix_def)
      with e(2) show ?thesis by simp
    next
      case (Cons y ys)
      with e have "xs = ys @ name @ c # post" by simp
      with e(2) Cons.IH show ?thesis by auto
    qed
  qed
qed

lemma run_med_pattern:
  assumes "run [Rx (med_pattern name)] pos s Map.empty = Some r"
  shows "\<exists>c rest. s = name @ c # rest \<and> is_space c"
proof -
  from assms have p: "prefix name s" and
    k: "run [Rx (Sym Space), Rx (Star Space),
             Rx (Seq (Opt (Group 2 (seq [Plus Digit, Star Space, lit ''mg'']))) Eps)]
          (pos + length name) (drop (length name) s) [1 \<mapsto> (pos, pos + length name)] = Some r"
    by (auto simp: med_pattern_def run_lit split: if_splits)
  from k obtain c rest where d: "drop (length name) s = c # rest" and "is_space c"
    by (cases "drop (length name) s") (auto split: if_splits)
  moreover from p obtain t where "s = name @ t" by (auto simp: prefix_def)
  ultimately show ?thesis by auto
qed

lemma medication_match_shape:
  assumes "m \<in> set (medication_matches text)"
  shows "\<exists>name\<in>set med_names. \<exists>pre c post.
           lower text = pre @ name @ c # post \<and> is_space c \<and> length pre = m_start m"
proof -
  from medication_match_pattern[OF assms] obtain name where n: "name \<in> set med_names"
    "m \<in> set (finditer (med_pattern name) (lower text))" by blast
  from finditer_match[OF n(2)] obtain r' where le: "m_start m \<le> length (lower text)"
    and "run [Rx (med_pattern name)] (m_start m) (drop (m_start m) (lower text)) Map.empty
           = Some (m_end m, r', m_spans m)" by blast
  from run_med_pattern[OF this(2)] obtain c rest where
    d: "drop (m_start m) (lower text) = name @ c # rest" and c: "is_space c" by blast
  have "lower text = take (m_start m) (lower text) @ name @ c # rest"
    using d append_take_drop_id[of "m_start m" "lower text"] by simp
  moreover have "length (take (m_start m) (lower text)) = m_start m" using le by simp
  ultimately show ?thesis using n(1) c by blast
qed

lemma no_medication_entities:
  assumes "\<forall>name\<in>set med_names. \<not> name_then_space name (lower text)"
  shows "extract_medications clk text = Inr []"
proof -
  have "medication_matches text = []"
  proof (rule ccontr)
    assume "medication_matches text \<noteq> []"
    then obtain m where "m \<in> set (medication_matches text)" by (cases "medication_matches text") auto
    from medication_match_shape[OF this] assms show False
      unfolding name_then_space_iff by blast
  qed
  then show ?thesis by (simp add: extract_medications_Inr stamp_def)
qed

lemma examples_no_space:
  "list_all (\<lambda>name. \<not> name_then_space name (lower ''metformin.'')) med_names"
  "list_all (\<lambda>name. \<not> name_then_space name (lower ''Patient takes Metformin'')) med_names"
  by code_simp+

text \<open>
  Claim C10. Every medication pattern requires a whitespace character right after the
  medication name: each medication match starts at an occurrence of a known name that
  is followed by whitespace. So a text in which no known name is followed by whitespace
  gives no medication entity, as \<open>metformin.\<close> and a text ending in \<open>Metformin\<close> do,
  although the name occurs in them.
\<close>

theorem medication_needs_whitespace:
  "(\<forall>m\<in>set (medication_matches text).
      \<exists>name\<in>set med_names. \<exists>pre c post.
          lower text = pre @ name @ c # post \<and> is_space c \<and> length pre = m_start m)
   \<and> ((\<forall>name\<in>set med_names. \<not> name_then_space name (lower text)) \<longrightarrow>
        extract_medications clk text = Inr [])
   \<and> extract_medications clk ''metformin.'' = Inr []
   \<and> extract_medications clk ''Patient takes Metformin'' = Inr []"
  using medication_match_shape[of _ "text"] no_medication_entities[of "text" clk]
    no_medication_entities[of "''metformin.''" clk]
    no_medication_entities[of "''Patient takes Metformin''" clk]
    examples_no_space
  unfolding list_all_iff by blast

theorem medication_needs_whitespace_witness:
  "list_all (\<lambda>name. \<not> name_then_space name (lower ''metformin.'')) med_names
   \<and> contains (lower ''metformin.'') ''metformin''
   \<and> extract_medications (const_clock ''t'') ''metformin.'' = Inr []"
proof -
  have c: "contains (lower ''metformin.'') ''metformin''" by code_simp
  from medication_needs_whitespace[of "''metformin.''" "const_clock ''t''"]
    examples_no_space(1) c
  show ?thesis by blast
qed

section \<open>Scenario A\<close>

lemma scenario_a_medications:
  "map (projr \<circ> medication_args) (medication_matches scenario_a) = take 2 scenario_a_fields"
  by code_simp

lemma scenario_a_diagnoses:
  "map (\<lambda>(icd_code, standard_name, m). diagnosis_args icd_code standard_name m)
     (diagnosis_matches scenario_a) = take 2 (drop 2 scenario_a_fields)"
  by code_simp

lemma scenario_a_labs:
  "map (\<lambda>(lab_name, m). lab_args lab_name m) (lab_matches scenario_a) = drop 4 scenario_a_fields"
  by code_simp

lemma first_by_fields:
  "(case filter (\<lambda>e. P (s_inst e)) es of [] \<Rightarrow> a | e # _ \<Rightarrow> f (s_inst e))
     = (case filter P (map s_inst es) of [] \<Rightarrow> a | x # _ \<Rightarrow> f x)"
  by (induction es) auto

lemma assess_by_fields:
  assumes "map s_inst es = map s_inst es'"
  shows "assess_diabetes_control es = assess_diabetes_control es'"
    and "assess_renal_function es = assess_renal_function es'"
    and "assess_cardiac_risk es = assess_cardiac_risk es'"
proof -
  have "assess_diabetes_control xs =
          (case filter (\<lambda>x. contains (entity_value x) ''hemoglobin_a1c'') (map s_inst xs) of
             [] \<Rightarrow> ''unknown''
           | x # _ \<Rightarrow>
               (case search_float first_number (entity_value x) of
                  None \<Rightarrow> ''unknown''
                | Some a1c_value \<Rightarrow>
                    if a1c_value < 7 then ''well_controlled''
                    else if a1c_value < 8 then ''moderately_controlled''
                    else ''poorly_controlled''))" for xs :: "entity list"
    unfolding assess_diabetes_control_def
    by (rule first_by_fields[where P = "\<lambda>x. contains (entity_value x) ''hemoglobin_a1c''"
          and f = "\<lambda>x. case search_float first_number (entity_value x) of
                  None \<Rightarrow> ''unknown''
                | Some a1c_value \<Rightarrow>
                    if a1c_value < 7 then ''well_controlled''
                    else if a1c_value < 8 then ''moderately_controlled''
                    else ''poorly_controlled''"])
  with assms show "assess_diabetes_control es = assess_diabetes_control es'" by simp
  have "assess_renal_function xs =
          (case filter (\<lambda>x. contains (entity_value x) ''egfr'') (map s_inst xs) of
             [] \<Rightarrow> ''unknown''
           | x # _ \<Rightarrow>
               (case search_float first_integer (entity_value x) of
                  None \<Rightarrow> ''unknown''
                | Some egfr_value \<Rightarrow>
                    if egfr_value \<ge> 90 then ''normal''
                    else if egfr_value \<ge> 60 then ''mild_impairment''
                    else if egfr_value \<ge> 30 then ''moderate_impairment''
                    else ''severe_impairment''))" for xs :: "entity list"
    unfolding assess_renal_function_def
    by (rule first_by_fields[where P = "\<lambda>x. contains (entity_value x) ''egfr''"
          and f = "\<lambda>x. case search_float first_integer (entity_value x) of
                  None \<Rightarrow> ''unknown''
                | Some egfr_value \<Rightarrow>
                    if egfr_value \<ge> 90 then ''normal''
                    else if egfr_value \<ge> 60 then ''mild_impairment''
                    else if egfr_value \<ge> 30 then ''moderate_impairment''
                    else ''severe_impairment''"])
  with assms show "assess_renal_function es = assess_renal_function es'" by simp
  have "has_diagnosis w es = has_diagnosis w es'" for w
  proof -
    have "has_diagnosis w xs
            = list_ex (\<lambda>x. contains (lower (entity_value x)) w)
                (filter (\<lambda>x. entity_type x = ''diagnosis'') (map s_inst xs))" for xs :: "entity list"
      unfolding has_diagnosis_def by (induction xs) auto
    with assms show ?thesis by simp
  qed
  then show "assess_cardiac_risk es = assess_cardiac_risk es'"
    by (simp add: assess_cardiac_risk_def)
qed

lemma scenario_a_assessed:
  "assess_diabetes_control (stamp (const_clock ''t'') scenario_a_fields) = ''well_controlled''"
  "assess_renal_function (stamp (const_clock ''t'') scenario_a_fields) = ''mild_impairment''"
  "assess_cardiac_risk (stamp (const_clock ''t'') scenario_a_fields) = ''moderate''"
  by code_simp+

lemma scenario_a_extracted:
  assumes "bronze_to_silver_document tr clk (d\<lparr>raw_content := scenario_a\<rparr>) = Inr (es, tr')"
  shows "map s_inst es = scenario_a_fields"
  using extraction_fields[OF assms]
  by (simp add: scenario_a_medications scenario_a_diagnoses scenario_a_labs scenario_a_fields_def)

text \<open>
  Claim C2, as amended. For the text of scenario A, extraction followed by aggregation
  gives eligibility factors with \<open>renal_function\<close> \<open>mild_impairment\<close> (an eGFR of 86 is
  below 90) and \<open>cardiac_risk\<close> \<open>moderate\<close>, whatever the clock, the transformer, the
  other fields of the document, the patient id and the demographics are.
\<close>

theorem scenario_a_factors:
  "\<exists>es tr'. bronze_to_silver_document tr clk (d\<lparr>raw_content := scenario_a\<rparr>) = Inr (es, tr')
      \<and> map s_inst es = scenario_a_fields
      \<and> map_of (trial_eligibility_factors
                  (g_inst (fst (silver_to_gold_patient tr2 clk2 pid es demo)))) ''renal_function''
          = Some ''mild_impairment''
      \<and> map_of (trial_eligibility_factors
                  (g_inst (fst (silver_to_gold_patient tr2 clk2 pid es demo)))) ''cardiac_risk''
          = Some ''moderate''"
proof -
  obtain es tr' where b: "bronze_to_silver_document tr clk (d\<lparr>raw_content := scenario_a\<rparr>) = Inr (es, tr')"
    by (simp add: bronze_to_silver_document_Inr Let_def)
  have f: "map s_inst es = scenario_a_fields" using scenario_a_extracted[OF b] .
  then have "map s_inst es = map s_inst (stamp (const_clock ''t'') scenario_a_fields)"
    by (simp add: s_inst_stamp)
  from assess_by_fields(2,3)[OF this] scenario_a_assessed(2,3)
  have "assess_renal_function es = ''mild_impairment''" "assess_cardiac_risk es = ''moderate''"
    by simp_all
  then have "map_of (trial_eligibility_factors
                  (g_inst (fst (silver_to_gold_patient tr2 clk2 pid es demo)))) ''renal_function''
          = Some ''mild_impairment''
      \<and> map_of (trial_eligibility_factors
                  (g_inst (fst (silver_to_gold_patient tr2 clk2 pid es demo)))) ''cardiac_risk''
          = Some ''moderate''"
    by (simp add: silver_to_gold_patient_def Let_def new_profile_def gold_layer_def)
  with b f show ?thesis by blast
qed

theorem scenario_a_factors_witness:
  "\<exists>es tr'. bronze_to_silver_document empty_transformer (const_clock ''t'')
               ((doc_of [])\<lparr>raw_content := scenario_a\<rparr>) = Inr (es, tr')
      \<and> map s_inst es = scenario_a_fields
      \<and> map_of (trial_eligibility_factors
                  (g_inst (fst (silver_to_gold_patient scenario_a_log (const_clock ''t'') ''P001''
                                  es demo_52)))) ''renal_function''
          = Some ''mild_impairment''
      \<and> map_of (trial_eligibility_factors
                  (g_inst (fst (silver_to_gold_patient scenario_a_log (const_clock ''t'') ''P001''
                                  es demo_52)))) ''cardiac_risk''
          = Some ''moderate''"
  by (rule scenario_a_factors)

text \<open>
  Claim C2 as stated says \<open>diabetes_controlled\<close> is \<open>moderately_controlled\<close> and
  \<open>renal_function\<close> is \<open>normal\<close>. The code on scenario A gives other factors.
\<close>

theorem scenario_a_counterexample:
  "bronze_to_silver_document empty_transformer (const_clock ''t'') (doc_of scenario_a)
     = Inr (stamp (const_clock ''t'') scenario_a_fields, scenario_a_log)
   \<and> trial_eligibility_factors
        (g_inst (fst (silver_to_gold_patient scenario_a_log (const_clock ''t'') ''P001''
                        (stamp (const_clock ''t'') scenario_a_fields) demo_52)))
       = [(''diabetes_controlled'', ''well_controlled''),
          (''renal_function'', ''mild_impairment''),
          (''cardiac_risk'', ''moderate'')]
   \<and> trial_eligibility_factors
        (g_inst (fst (silver_to_gold_patient scenario_a_log (const_clock ''t'') ''P001''
                        (stamp (const_clock ''t'') scenario_a_fields) demo_52)))
       \<noteq> [(''diabetes_controlled'', ''moderately_controlled''),
          (''renal_function'', ''normal''),
          (''cardiac_risk'', ''moderate'')]"
  by code_simp

end
